(* ===== verification/Prelude.thy ===== *)
theory Prelude
  imports Main "HOL-Library.State_Monad"
begin

text \<open>
  Shared vocabulary of the development: the run-time errors that PyTorch and Python raise
  on the code paths of the repository, results as the sum type \<open>error + 'a\<close> with a bind
  that stops at the first error (as an exception does), Python list indexing, tensor
  shapes, and the output-length arithmetic of convolution and pooling windows.
  The collection \<open>result_iff\<close> holds the characterisations of a successful result,
  \<open>shape_rules\<close> the shapes the library's modules compute on well-formed inputs, and
  \<open>init_simps\<close> the unfoldings of the module constructors; the component proofs hand
  them to \<open>simp\<close>.
\<close>

named_theorems result_iff "characterisations of a successful result"
named_theorems shape_rules "shapes computed by the library's modules on well-formed inputs"
named_theorems init_simps "unfolding of the module constructors"

section \<open>Errors and results\<close>

text \<open>
  One constructor per exception the modelled code can raise. \<open>ChannelMismatch e g\<close>
  and \<open>FeatureMismatch e g\<close> carry the expected and the given size, as PyTorch's
  messages do.
\<close>

datatype error =
    IndexError                  \<comment> \<open>Python: list index out of range\<close>
  | ChannelMismatch nat nat     \<comment> \<open>conv / batch norm: wrong number of input channels\<close>
  | BadKernel                   \<comment> \<open>kernel size must be positive\<close>
  | BadStride                   \<comment> \<open>non-positive stride is not supported\<close>
  | WeightTooSmall              \<comment> \<open>conv: expected weight to be at least groups at dimension 0\<close>
  | PadTooLarge                 \<comment> \<open>pool: pad should be at most half of kernel size\<close>
  | KernelTooLarge              \<comment> \<open>kernel size can't be greater than padded input size\<close>
  | RankError                   \<comment> \<open>a tensor of the wrong number of dimensions\<close>
  | FeatureMismatch nat nat     \<comment> \<open>linear: mat1 and mat2 shapes cannot be multiplied\<close>
  | BroadcastError              \<comment> \<open>in-place add: operand does not broadcast\<close>
  | ViewError                   \<comment> \<open>view: shape is invalid for input of this size\<close>
  | EmptyInput                  \<comment> \<open>adaptive pool: non-zero size expected\<close>
  | TooFewValues                \<comment> \<open>batch norm in training: more than 1 value per channel\<close>

type_synonym 'a result = "error + 'a"

definition rbind :: "'a result \<Rightarrow> ('a \<Rightarrow> 'b result) \<Rightarrow> 'b result" where
  "rbind m f = (case m of Inl e \<Rightarrow> Inl e | Inr x \<Rightarrow> f x)"

definition check :: "bool \<Rightarrow> error \<Rightarrow> unit result" where
  "check b e = (if b then Inr () else Inl e)"

section \<open>Python list indexing\<close>

text \<open>
  \<open>xs[i]\<close> in Python: a negative index counts from the end, and an index out of range
  raises \<open>IndexError\<close>.
\<close>

definition py_index :: "'a list \<Rightarrow> int \<Rightarrow> 'a result" where
  "py_index xs i =
     (if i < - int (length xs) \<or> int (length xs) \<le> i then Inl IndexError
      else Inr (xs ! nat (i mod int (length xs))))"

section \<open>Shapes and window arithmetic\<close>

text \<open>A tensor shape is its list of dimension sizes, outermost first.\<close>

type_synonym shape = "nat list"

text \<open>
  The output length of a window of size \<open>k\<close> slid with stride \<open>s\<close> over an input of
  length \<open>h\<close> padded by \<open>p\<close> on both sides (dilation 1, floor mode), as PyTorch documents
  it for \<open>Conv2d\<close> and \<open>MaxPool2d\<close>: \<open>\<lfloor>(h + 2p - k) / s\<rfloor> + 1\<close>. It is used
  only where \<open>k \<le> h + 2p\<close> has been checked.
\<close>

definition out_len :: "nat \<Rightarrow> nat \<Rightarrow> nat \<Rightarrow> nat \<Rightarrow> nat" where
  "out_len h k s p = (h + 2 * p - k) div s + 1"

text \<open>
  The output length of a window whose padding keeps the size at stride 1 (an odd kernel
  with padding \<open>k div 2\<close>, or a kernel of 1 without padding), at stride \<open>s\<close>.
\<close>

definition down :: "nat \<Rightarrow> nat \<Rightarrow> nat" where
  "down h s = (h - 1) div s + 1"

section \<open>Lemmas\<close>

subsection \<open>Results\<close>

lemma rbind_simps [simp]:
  "rbind (Inl e) f = Inl e"
  "rbind (Inr x) f = f x"
  by (simp_all add: rbind_def)

lemma rbind_Inr_iff [result_iff]:
  "rbind m f = Inr y \<longleftrightarrow> (\<exists>x. m = Inr x \<and> f x = Inr y)"
  by (cases m) simp_all

lemma rbind_Inl_iff:
  "rbind m f = Inl e \<longleftrightarrow> m = Inl e \<or> (\<exists>x. m = Inr x \<and> f x = Inl e)"
  by (cases m) simp_all

lemma rbind_assoc [simp]:
  "rbind (rbind m f) g = rbind m (\<lambda>x. rbind (f x) g)"
  by (cases m) simp_all

lemma rbind_Inr_right [simp]: "rbind m Inr = m"
  by (cases m) simp_all

lemma rbind_cong:
  "m = m' \<Longrightarrow> (\<And>x. m' = Inr x \<Longrightarrow> f x = g x) \<Longrightarrow> rbind m f = rbind m' g"
  by (cases m') simp_all

lemma rbind_split:
  "P (rbind m f) \<longleftrightarrow> (\<forall>e. m = Inl e \<longrightarrow> P (Inl e)) \<and> (\<forall>x. m = Inr x \<longrightarrow> P (f x))"
  by (cases m) simp_all

lemma rbind_split_asm:
  "P (rbind m f) \<longleftrightarrow> \<not> ((\<exists>e. m = Inl e \<and> \<not> P (Inl e)) \<or> (\<exists>x. m = Inr x \<and> \<not> P (f x)))"
  by (cases m) simp_all

lemmas rbind_splits = rbind_split rbind_split_asm

text \<open>
  A computation that raises \<open>e\<close> under a condition \<open>P\<close>, followed by one that raises it
  under \<open>Q\<close>, raises it under \<open>Q\<close> alone when \<open>P\<close> implies \<open>Q\<close>: the rule that
  chains the stages of a network whose failure condition only grows.
\<close>

lemma rbind_if_error:
  assumes "P \<Longrightarrow> Q" and "\<not> P \<Longrightarrow> f y = (if Q then Inl e else r)"
  shows "rbind (if P then Inl e else Inr y) f = (if Q then Inl e else r)"
  using assms by (cases P) simp_all

lemma check_simps [simp]:
  "check True e = Inr ()"
  "check False e = Inl e"
  by (simp_all add: check_def)

lemma check_Inr_iff [result_iff]: "check b e = Inr u \<longleftrightarrow> b"
  by (simp add: check_def)

subsection \<open>Indexing\<close>

lemma py_index_nat [simp]:
  "py_index xs (int i) = (if i < length xs then Inr (xs ! i) else Inl IndexError)"
  by (simp add: py_index_def zmod_int [symmetric])

lemma py_index_numeral [simp]:
  "py_index xs (numeral k) =
     (if numeral k < length xs then Inr (xs ! numeral k) else Inl IndexError)"
  using py_index_nat [of xs "numeral k"] by simp

lemma py_index_zero [simp]:
  "py_index xs 0 = (if 0 < length xs then Inr (xs ! 0) else Inl IndexError)"
  using py_index_nat [of xs 0] by simp

lemma py_index_one [simp]:
  "py_index xs 1 = (if 1 < length xs then Inr (xs ! 1) else Inl IndexError)"
  using py_index_nat [of xs 1] by simp

lemma py_index_minus_one [simp]:
  "py_index xs (-1) = (if xs = [] then Inl IndexError else Inr (last xs))"
proof (cases xs rule: rev_cases)
  case (snoc ys y)
  have "(-1) mod int (Suc (length ys)) = int (length ys)"
    by (simp add: zmod_minus1)
  with snoc show ?thesis by (simp add: py_index_def nth_append)
qed (simp add: py_index_def)

subsection \<open>Window arithmetic\<close>

lemma out_len_pos [simp]: "0 < out_len h k s p"
  by (simp add: out_len_def)

lemma out_len_odd:
  assumes "odd k" and "1 \<le> h"
  shows "out_len h k s (k div 2) = down h s"
proof -
  from \<open>odd k\<close> have "2 * (k div 2) = k - 1" and "1 \<le> k" by presburger+
  with assms have "h + 2 * (k div 2) - k = h - 1" by arith
  then show ?thesis by (simp add: out_len_def down_def)
qed

lemma out_len_even:
  assumes "even k"
  shows "out_len h k s (k div 2) = h div s + 1"
  using assms by (simp add: out_len_def)

lemma out_len_one [simp]:
  "out_len h 1 s 0 = down h s"
  "out_len h (Suc 0) s 0 = down h s"
  by (simp_all add: out_len_def down_def)

lemma out_len_unit_stride: "k \<le> h + 2 * p \<Longrightarrow> out_len h k 1 p = h + 2 * p - k + 1"
  by (simp add: out_len_def)

text \<open>Strided lengths stay positive, never grow, and stride 1 keeps them.\<close>

lemma down_pos [simp]: "0 < down h s" "1 \<le> down h s" "Suc 0 \<le> down h s" "down h s \<noteq> 0"
  by (simp_all add: down_def)

lemma down_unit_stride [simp]: "1 \<le> h \<Longrightarrow> down h 1 = h" "1 \<le> h \<Longrightarrow> down h (Suc 0) = h"
  by (simp_all add: down_def)

lemma down_le: "1 \<le> h \<Longrightarrow> down h s \<le> h"
  unfolding down_def
  by (metis Suc_eq_plus1 Suc_le_eq diff_less div_le_dividend le_less_trans less_one not_le)

lemma mult3_ne_one: "1 < (a::nat) \<Longrightarrow> n * a * b \<noteq> 1"
  by simp

lemma single_batch_mult:
  "\<not> (tr \<and> n = 1) \<Longrightarrow> \<not> (tr \<and> bn \<and> n * a * b = (1::nat))"
  "\<not> (tr \<and> n = 1) \<Longrightarrow> \<not> (tr \<and> n * a * b = (1::nat))"
  by auto

lemma down_eq_one_iff: "down h s = 1 \<longleftrightarrow> h - 1 < s \<or> s = 0"
  by (auto simp add: down_def div_eq_0_iff)

end
