(* ===== verification/Torch.thy ===== *)
theory Torch
  imports Prelude
begin

text \<open>
  The part of PyTorch that the repository calls, modelled from PyTorch's documented
  behaviour (it is a library, not code of the repository):
  \<^item> the parameter store: every \<open>nn.Parameter\<close> is an address of a \<open>store\<close> that holds its
    shape and its \<open>requires_grad\<close> flag; constructing a module allocates its parameters
    in order (\<open>alloc\<close>), threaded through the state monad;
  \<^item> the modules the repository builds, as the datatype \<open>layer\<close> with their
    hyper-parameters and parameter addresses, and their constructors
    (\<open>Conv2d_new\<close>, \<open>BatchNorm2d_new\<close>, \<open>Linear_new\<close>);
  \<^item> the shape semantics of each module and functional operation, with the run-time
    errors PyTorch raises (\<open>layer_shape\<close>, \<open>iadd_shape\<close>, \<open>flatten1_shape\<close>,
    \<open>view_shape\<close>);
  \<^item> a \<open>backend\<close> record that names these operations, so that the forward passes of the
    repository are written once over any backend; \<open>shape_backend\<close> is the instance
    that computes shapes.
\<close>

section \<open>Parameter store\<close>

record param =
  pshape :: shape
  requires_grad :: bool

record store =
  heap :: "nat \<Rightarrow> param option"
  lim :: nat

definition empty_store :: store where
  "empty_store = \<lparr>heap = (\<lambda>_. None), lim = 0\<rparr>"

text \<open>\<open>nn.Parameter(torch.empty(shape))\<close>: a fresh address, gradient tracking on.\<close>

definition alloc :: "shape \<Rightarrow> (store, nat) state" where
  "alloc sh = State (\<lambda>s. (lim s,
     s\<lparr>heap := (heap s)(lim s \<mapsto> \<lparr>pshape = sh, requires_grad = True\<rparr>), lim := Suc (lim s)\<rparr>))"

text \<open>\<open>param.requires_grad = False\<close> for one parameter.\<close>

definition freeze_param :: "nat \<Rightarrow> store \<Rightarrow> store" where
  "freeze_param p s =
     s\<lparr>heap := (heap s)(p := map_option (\<lambda>r. r\<lparr>requires_grad := False\<rparr>) (heap s p))\<rparr>"

text \<open>The parameters allocated in a store are those below its limit.\<close>

definition store_ok :: "store \<Rightarrow> bool" where
  "store_ok s \<longleftrightarrow> (\<forall>a. heap s a \<noteq> None \<longleftrightarrow> a < lim s)"

definition grad_on :: "store \<Rightarrow> nat \<Rightarrow> bool" where
  "grad_on s p \<longleftrightarrow> (case heap s p of Some r \<Rightarrow> requires_grad r | None \<Rightarrow> False)"

section \<open>Modules\<close>

text \<open>
  \<open>Conv2d in out k stride pad w b\<close>: square kernel \<open>k\<close>, weight at \<open>w\<close>, bias at \<open>b\<close>
  when \<open>bias=True\<close>. \<open>BatchNorm2d c w b\<close>: affine weight and bias (the running statistics
  are buffers, not parameters). \<open>MaxPool2d k stride pad\<close>, \<open>AdaptiveAvgPool2d oh ow\<close>,
  \<open>Linear in out w b\<close>.
\<close>

datatype layer =
    Conv2d nat nat nat nat nat nat "nat option"
  | BatchNorm2d nat nat nat
  | MaxPool2d nat nat nat
  | AdaptiveAvgPool2d nat nat
  | Linear nat nat nat "nat option"

definition Conv2d_new :: "nat \<Rightarrow> nat \<Rightarrow> nat \<Rightarrow> nat \<Rightarrow> nat \<Rightarrow> bool \<Rightarrow> (store, layer) state" where
  "Conv2d_new cin cout k stride pad bias = do {
     w \<leftarrow> alloc [cout, cin, k, k];
     b \<leftarrow> (if bias then do { b \<leftarrow> alloc [cout]; State_Monad.return (Some b) }
          else State_Monad.return None);
     State_Monad.return (Conv2d cin cout k stride pad w b)
   }"

definition BatchNorm2d_new :: "nat \<Rightarrow> (store, layer) state" where
  "BatchNorm2d_new c = do {
     w \<leftarrow> alloc [c];
     b \<leftarrow> alloc [c];
     State_Monad.return (BatchNorm2d c w b)
   }"

definition Linear_new :: "nat \<Rightarrow> nat \<Rightarrow> (store, layer) state" where
  "Linear_new in_features out_f = do {
     w \<leftarrow> alloc [out_f, in_features];
     b \<leftarrow> alloc [out_f];
     State_Monad.return (Linear in_features out_f w (Some b))
   }"

text \<open>\<open>module.parameters()\<close> of one module, in registration order.\<close>

fun layer_params :: "layer \<Rightarrow> nat list" where
  "layer_params (Conv2d _ _ _ _ _ w b) = w # (case b of None \<Rightarrow> [] | Some a \<Rightarrow> [a])"
| "layer_params (BatchNorm2d _ w b) = [w, b]"
| "layer_params (MaxPool2d _ _ _) = []"
| "layer_params (AdaptiveAvgPool2d _ _) = []"
| "layer_params (Linear _ _ w b) = w # (case b of None \<Rightarrow> [] | Some a \<Rightarrow> [a])"

fun out_features :: "layer \<Rightarrow> nat" where
  "out_features (Linear _ n _ _) = n"

section \<open>Shape semantics\<close>

text \<open>
  Batched four-dimensional inputs \<open>[N, C, H, W]\<close> only; PyTorch's unbatched
  three-dimensional convolution and pooling inputs are not modelled and give
  \<open>RankError\<close>. A convolution checks its stride, then that its weight has at least
  one output channel (\<open>groups = 1\<close>), then the input channels and the kernel; max
  pooling needs non-zero channel and spatial sizes (only the batch may be empty).
\<close>

definition conv2d_shape :: "nat \<Rightarrow> nat \<Rightarrow> nat \<Rightarrow> nat \<Rightarrow> nat \<Rightarrow> shape \<Rightarrow> shape result" where
  "conv2d_shape cin cout k stride pad x =
     (case x of
        [n, c, h, w] \<Rightarrow>
          if stride = 0 then Inl BadStride
          else if cout = 0 then Inl WeightTooSmall
          else if c \<noteq> cin then Inl (ChannelMismatch cin c)
          else if k = 0 then Inl BadKernel
          else if h + 2 * pad < k \<or> w + 2 * pad < k then Inl KernelTooLarge
          else Inr [n, cout, out_len h k stride pad, out_len w k stride pad]
      | _ \<Rightarrow> Inl RankError)"

definition batchnorm2d_shape :: "bool \<Rightarrow> nat \<Rightarrow> shape \<Rightarrow> shape result" where
  "batchnorm2d_shape training c x =
     (case x of
        [n, c', h, w] \<Rightarrow>
          if c' \<noteq> c then Inl (ChannelMismatch c c')
          else if training \<and> n * h * w = 1 then Inl TooFewValues
          else Inr x
      | _ \<Rightarrow> Inl RankError)"

definition maxpool2d_shape :: "nat \<Rightarrow> nat \<Rightarrow> nat \<Rightarrow> shape \<Rightarrow> shape result" where
  "maxpool2d_shape k stride pad x =
     (case x of
        [n, c, h, w] \<Rightarrow>
          if k = 0 then Inl BadKernel
          else if stride = 0 then Inl BadStride
          else if k < 2 * pad then Inl PadTooLarge
          else if c = 0 \<or> h = 0 \<or> w = 0 then Inl EmptyInput
          else if h + 2 * pad < k \<or> w + 2 * pad < k then Inl KernelTooLarge
          else Inr [n, c, out_len h k stride pad, out_len w k stride pad]
      | _ \<Rightarrow> Inl RankError)"

definition adaptive_avgpool2d_shape :: "nat \<Rightarrow> nat \<Rightarrow> shape \<Rightarrow> shape result" where
  "adaptive_avgpool2d_shape oh ow x =
     (case x of
        [n, c, h, w] \<Rightarrow> if c = 0 \<or> h = 0 \<or> w = 0 then Inl EmptyInput else Inr [n, c, oh, ow]
      | _ \<Rightarrow> Inl RankError)"

definition linear_shape :: "nat \<Rightarrow> nat \<Rightarrow> shape \<Rightarrow> shape result" where
  "linear_shape in_f out_f x =
     (if x = [] then Inl RankError
      else if last x \<noteq> in_f then Inl (FeatureMismatch in_f (last x))
      else Inr (butlast x @ [out_f]))"

fun layer_shape :: "bool \<Rightarrow> layer \<Rightarrow> shape \<Rightarrow> shape result" where
  "layer_shape training (Conv2d cin cout k stride pad _ _) x = conv2d_shape cin cout k stride pad x"
| "layer_shape training (BatchNorm2d c _ _) x = batchnorm2d_shape training c x"
| "layer_shape training (MaxPool2d k stride pad) x = maxpool2d_shape k stride pad x"
| "layer_shape training (AdaptiveAvgPool2d oh ow) x = adaptive_avgpool2d_shape oh ow x"
| "layer_shape training (Linear in_f out_f _ _) x = linear_shape in_f out_f x"

text \<open>
  \<open>out += identity\<close>: the right operand broadcasts to the left one (dimensions aligned
  from the right, each equal or 1); the result keeps the left operand's shape.
\<close>

definition broadcasts_to :: "shape \<Rightarrow> shape \<Rightarrow> bool" where
  "broadcasts_to y x \<longleftrightarrow>
     length y \<le> length x \<and> list_all2 (\<lambda>a b. a = b \<or> a = 1) (rev y) (take (length y) (rev x))"

definition iadd_shape :: "shape \<Rightarrow> shape \<Rightarrow> shape result" where
  "iadd_shape x y = (if broadcasts_to y x then Inr x else Inl BroadcastError)"

text \<open>\<open>torch.flatten(x, 1)\<close>.\<close>

definition flatten1_shape :: "shape \<Rightarrow> shape result" where
  "flatten1_shape x = (case x of n # d # ds \<Rightarrow> Inr [n, prod_list (d # ds)] | _ \<Rightarrow> Inl RankError)"

text \<open>\<open>x.view(-1, c, h, w)\<close>: the leading size is inferred from the number of elements.\<close>

definition view_shape :: "nat \<Rightarrow> nat \<Rightarrow> nat \<Rightarrow> shape \<Rightarrow> shape result" where
  "view_shape c h w x =
     (let numel = prod_list x; r = c * h * w
      in if r = 0 \<or> numel mod r \<noteq> 0 then Inl ViewError else Inr [numel div r, c, h, w])"

section \<open>Backends\<close>

text \<open>
  The operations a forward pass performs on a tensor of type \<open>'t\<close>: run a module, the
  element-wise \<open>F.relu\<close>, the in-place residual addition, \<open>torch.flatten(x, 1)\<close> and
  \<open>view(-1, c, h, w)\<close>.
\<close>

record 't backend =
  run_layer :: "layer \<Rightarrow> 't \<Rightarrow> 't result"
  relu :: "'t \<Rightarrow> 't"
  iadd :: "'t \<Rightarrow> 't \<Rightarrow> 't result"
  flatten1 :: "'t \<Rightarrow> 't result"
  view4 :: "nat \<Rightarrow> nat \<Rightarrow> nat \<Rightarrow> 't \<Rightarrow> 't result"

text \<open>\<open>nn.Sequential\<close>: the modules in order, stopping at the first error.\<close>

fun seq_forward :: "'t backend \<Rightarrow> layer list \<Rightarrow> 't \<Rightarrow> 't result" where
  "seq_forward be [] x = Inr x"
| "seq_forward be (l # ls) x = rbind (run_layer be l x) (seq_forward be ls)"

text \<open>Shapes as tensors; \<open>training\<close> is the module's \<open>training\<close> flag.\<close>

definition shape_backend :: "bool \<Rightarrow> shape backend" where
  "shape_backend training =
     \<lparr>run_layer = layer_shape training, relu = (\<lambda>x. x), iadd = iadd_shape,
      flatten1 = flatten1_shape, view4 = view_shape\<rparr>"

section \<open>Allocation invariant\<close>

text \<open>
  A constructor \<open>allocates\<close> the parameters \<open>f x\<close> of its result \<open>x\<close> when, from
  any store, the store only grows and every parameter is a fresh address, allocated by
  this run.
\<close>

definition allocates :: "('a \<Rightarrow> nat list) \<Rightarrow> (store, 'a) state \<Rightarrow> bool" where
  "allocates f m \<longleftrightarrow>
     (\<forall>s. lim s \<le> lim (snd (run_state m s)) \<and>
          (\<forall>a \<in> set (f (fst (run_state m s))). lim s \<le> a \<and> a < lim (snd (run_state m s))))"

section \<open>Facts about the library\<close>

lemma shape_backend_simps [simp]:
  "run_layer (shape_backend tr) = layer_shape tr"
  "relu (shape_backend tr) x = x"
  "iadd (shape_backend tr) = iadd_shape"
  "flatten1 (shape_backend tr) = flatten1_shape"
  "view4 (shape_backend tr) = view_shape"
  by (simp_all add: shape_backend_def)

subsection \<open>Shapes on well-formed inputs\<close>

lemma conv2d_shape_same [shape_rules]:
  "odd k \<Longrightarrow> 0 < st \<Longrightarrow> 0 < cout \<Longrightarrow> 1 \<le> h \<Longrightarrow> 1 \<le> w \<Longrightarrow>
   conv2d_shape cin cout k st (k div 2) [n, cin, h, w] = Inr [n, cout, down h st, down w st]"
  by (auto simp add: conv2d_shape_def out_len_odd elim: oddE)

lemma conv2d_shape_pointwise [shape_rules]:
  "0 < st \<Longrightarrow> 0 < cout \<Longrightarrow> 1 \<le> h \<Longrightarrow> 1 \<le> w \<Longrightarrow>
   conv2d_shape cin cout (Suc 0) st 0 [n, cin, h, w] = Inr [n, cout, down h st, down w st]"
  by (simp add: conv2d_shape_def)

lemma batchnorm2d_shape_ok [shape_rules]:
  "\<not> (tr \<and> n * h * w = 1) \<Longrightarrow> batchnorm2d_shape tr c [n, c, h, w] = Inr [n, c, h, w]"
  by (simp add: batchnorm2d_shape_def)

lemma batchnorm2d_shape_single:
  "batchnorm2d_shape True c [n, c, h, w] = (if n * h * w = 1 then Inl TooFewValues else Inr [n, c, h, w])"
  by (simp add: batchnorm2d_shape_def)

lemma iadd_shape_same [shape_rules]: "iadd_shape x x = Inr x"
  by (simp add: iadd_shape_def broadcasts_to_def list_all2_refl)

lemma iadd_shape_4d:
  "iadd_shape [n, c, h, w] [n', c', h', w'] =
     (if (n' = n \<or> n' = 1) \<and> (c' = c \<or> c' = 1) \<and> (h' = h \<or> h' = 1) \<and> (w' = w \<or> w' = 1)
      then Inr [n, c, h, w] else Inl BroadcastError)"
  by (auto simp add: iadd_shape_def broadcasts_to_def)

subsection \<open>Allocation\<close>

lemma allocatesI:
  "(\<And>s. lim s \<le> lim (snd (run_state m s))) \<Longrightarrow>
   (\<And>s a. a \<in> set (f (fst (run_state m s))) \<Longrightarrow> lim s \<le> a \<and> a < lim (snd (run_state m s))) \<Longrightarrow>
   allocates f m"
  by (simp add: allocates_def)

lemma allocatesD:
  "allocates f m \<Longrightarrow> lim s \<le> lim (snd (run_state m s))"
  "allocates f m \<Longrightarrow> a \<in> set (f (fst (run_state m s))) \<Longrightarrow> lim s \<le> a"
  "allocates f m \<Longrightarrow> a \<in> set (f (fst (run_state m s))) \<Longrightarrow> a < lim (snd (run_state m s))"
  by (simp_all add: allocates_def)

text \<open>Allocation composes: a constructor that allocates, followed by one that allocates,
  returning a value whose parameters come from the two results.\<close>

lemma allocates_bind:
  assumes m: "allocates f m" and k: "\<And>x. allocates g (k x)"
    and c: "\<And>x y. set (h (c x y)) \<subseteq> set (f x) \<union> set (g y)"
  shows "allocates h (do { x \<leftarrow> m; y \<leftarrow> k x; State_Monad.return (c x y) })"
proof (rule allocatesI)
  fix s
  let ?x = "fst (run_state m s)" and ?t = "snd (run_state m s)"
  have 1: "lim s \<le> lim ?t" using allocatesD(1) [OF m] .
  have 2: "lim ?t \<le> lim (snd (run_state (k ?x) ?t))" using allocatesD(1) [OF k] .
  show "lim s \<le> lim (snd (run_state (do { x \<leftarrow> m; y \<leftarrow> k x; State_Monad.return (c x y) }) s))"
    using 1 2 by (simp add: split_def)
  fix a
  assume "a \<in> set (h (fst (run_state (do { x \<leftarrow> m; y \<leftarrow> k x; State_Monad.return (c x y) }) s)))"
  then have "a \<in> set (f ?x) \<or> a \<in> set (g (fst (run_state (k ?x) ?t)))"
    using c by (auto simp add: split_def)
  then show "lim s \<le> a \<and> a < lim (snd (run_state (do { x \<leftarrow> m; y \<leftarrow> k x; State_Monad.return (c x y) }) s))"
    using 1 2 allocatesD(2,3) [OF m, of a s] allocatesD(2,3) [OF k, of a ?x ?t]
    by (auto simp add: split_def)
qed

lemmas constructor_defs [init_simps] = Conv2d_new_def BatchNorm2d_new_def Linear_new_def alloc_def

lemma Conv2d_new_allocates: "allocates layer_params (Conv2d_new cin cout k st p bias)"
  by (rule allocatesI) (auto simp add: init_simps)

lemma BatchNorm2d_new_allocates: "allocates layer_params (BatchNorm2d_new c)"
  by (rule allocatesI) (auto simp add: init_simps)

lemma Linear_new_allocates: "allocates layer_params (Linear_new i n)"
  by (rule allocatesI) (auto simp add: init_simps)

subsection \<open>Sequential composition\<close>

lemma seq_forward_append:
  "seq_forward be (ls @ ms) x = rbind (seq_forward be ls x) (seq_forward be ms)"
  by (induction ls arbitrary: x) (simp_all cong: rbind_cong)

end
