(* ===== verification/BasicBlock.thy ===== *)
theory BasicBlock
  imports Torch
begin

text \<open>
  \<open>BasicBlock\<close> of \<^verbatim>\<open>src/src/models/classifying_resnet.py\<close>: the residual unit.
  Its state is the three \<open>nn.Sequential\<close> branches \<open>conv1\<close>, \<open>conv2\<close> and
  \<open>shortcut\<close>; \<open>BasicBlock_init\<close> is \<open>__init__\<close>, which allocates the parameters
  of every module it creates in the store, and \<open>BasicBlock_forward\<close> is \<open>forward\<close>,
  over any backend. The lemmas give the structure \<open>__init__\<close> builds (the shortcut is
  the identity exactly when channels and stride are unchanged; the second branch never
  holds a batch norm), the output shape of the block for odd kernels, the shape error for
  even kernels, and the parameters the block registers.
\<close>

record BasicBlock =
  conv1 :: "layer list"
  conv2 :: "layer list"
  shortcut :: "layer list"

text \<open>
  \<open>nn.Sequential(*xs)\<close> copies the modules of \<open>xs\<close> when it is built, so a module
  appended to \<open>xs\<close> afterwards is not part of it. The second branch is built from
  \<open>conv_block2\<close> before the batch norm is appended (lines 49 and 51--52): that batch
  norm is allocated but belongs to no branch.
\<close>

definition BasicBlock_init :: "nat \<Rightarrow> nat \<Rightarrow> nat \<Rightarrow> nat \<Rightarrow> bool \<Rightarrow> (store, BasicBlock) state" where
  "BasicBlock_init in_channels out_channels kernel_size stride use_batchnorm = do {
     c1 \<leftarrow> Conv2d_new in_channels out_channels kernel_size stride (kernel_size div 2)
            (\<not> use_batchnorm);
     conv_block1 \<leftarrow> (if use_batchnorm
                     then do { bn \<leftarrow> BatchNorm2d_new out_channels; State_Monad.return [c1, bn] }
                     else State_Monad.return [c1]);
     c2 \<leftarrow> Conv2d_new out_channels out_channels kernel_size 1 (kernel_size div 2)
            (\<not> use_batchnorm);
     let conv_block2 = [c2];
     let conv2 = conv_block2;
     conv_block2 \<leftarrow> (if use_batchnorm
                     then do { bn \<leftarrow> BatchNorm2d_new out_channels;
                               State_Monad.return (conv_block2 @ [bn]) }
                     else State_Monad.return conv_block2);
     shortcut \<leftarrow> (if stride \<noteq> 1 \<or> in_channels \<noteq> out_channels
                  then do {
                    sc \<leftarrow> Conv2d_new in_channels out_channels 1 stride 0 False;
                    if use_batchnorm
                    then do { bn \<leftarrow> BatchNorm2d_new out_channels; State_Monad.return [sc, bn] }
                    else State_Monad.return [sc] }
                  else State_Monad.return []);
     State_Monad.return \<lparr>conv1 = conv_block1, conv2 = conv2, shortcut = shortcut\<rparr>
   }"

text \<open>
  \<open>forward\<close>: the shortcut is computed first, then the two convolution branches with a
  ReLU between them, the in-place residual addition and the final ReLU.
\<close>

definition BasicBlock_forward :: "'t backend \<Rightarrow> BasicBlock \<Rightarrow> 't \<Rightarrow> 't result" where
  "BasicBlock_forward be b x =
     rbind (seq_forward be (shortcut b) x) (\<lambda>identity.
     rbind (seq_forward be (conv1 b) x) (\<lambda>out.
     let out = relu be out in
     rbind (seq_forward be (conv2 b) out) (\<lambda>out.
     rbind (iadd be out identity) (\<lambda>out.
     Inr (relu be out)))))"

text \<open>\<open>block.parameters()\<close>: the branches in registration order.\<close>

definition block_params :: "BasicBlock \<Rightarrow> nat list" where
  "block_params b = concat (map layer_params (conv1 b @ conv2 b @ shortcut b))"

section \<open>What the constructor builds\<close>

lemmas BasicBlock_init_simps [init_simps] = BasicBlock_init_def Let_def

lemma BasicBlock_init_conv1:
  "\<exists>w. conv1 (fst (run_state (BasicBlock_init cin cout k st bn) s)) =
     (if bn then [Conv2d cin cout k st (k div 2) w None, BatchNorm2d cout (w + 1) (w + 2)]
      else [Conv2d cin cout k st (k div 2) w (Some (w + 1))])"
  by (simp add: init_simps)

lemma BasicBlock_init_lim:
  "lim (snd (run_state (BasicBlock_init cin cout k st bn) s)) =
     lim s + (if bn then 6 else 4) +
     (if st = 1 \<and> cin = cout then 0 else if bn then 3 else 1)"
  by (simp add: init_simps)

lemma BasicBlock_init_allocates: "allocates block_params (BasicBlock_init cin cout k st bn)"
  by (rule allocatesI) (auto simp add: init_simps block_params_def)

section \<open>Shapes through the block\<close>

lemma conv2d_shape_even:
  "even k \<Longrightarrow> 0 < k \<Longrightarrow> 0 < st \<Longrightarrow> 0 < cout \<Longrightarrow>
   conv2d_shape cin cout k st (k div 2) [n, cin, h, w] = Inr [n, cout, h div st + 1, w div st + 1]"
  by (auto simp add: conv2d_shape_def out_len_even)

lemma BasicBlock_forward_ok:
  assumes "odd k" "0 < st" "0 < cout" "1 \<le> h" "1 \<le> w"
    and "\<not> (tr \<and> bn \<and> n * down h st * down w st = 1)"
  shows "BasicBlock_forward (shape_backend tr) (fst (run_state (BasicBlock_init cin cout k st bn) s))
           [n, cin, h, w] = Inr [n, cout, down h st, down w st]"
proof (cases bn)
  case False
  with assms show ?thesis
    by (simp add: init_simps BasicBlock_forward_def shape_rules)
next
  case True
  with assms have bn: "\<not> (tr \<and> n * down h st * down w st = 1)" by simp
  show ?thesis
  proof (cases "st = 1 \<and> cin = cout")
    case True
    with bn assms \<open>bn\<close> show ?thesis
      by (simp add: init_simps BasicBlock_forward_def shape_rules)
  next
    case False
    with bn assms \<open>bn\<close> show ?thesis
      by (simp add: init_simps BasicBlock_forward_def shape_rules)
  qed
qed

lemma BasicBlock_forward_too_few:
  assumes "odd k" "0 < st" "0 < cout" "1 \<le> h" "1 \<le> w" and "bn"
    and "n * down h st * down w st = 1"
  shows "BasicBlock_forward (shape_backend True) (fst (run_state (BasicBlock_init cin cout k st bn) s))
           [n, cin, h, w] = Inl TooFewValues"
proof (cases "st = 1 \<and> cin = cout")
  case True
  with assms show ?thesis
    by (simp add: init_simps BasicBlock_forward_def shape_rules batchnorm2d_shape_single)
next
  case False
  with assms show ?thesis
    by (simp add: init_simps BasicBlock_forward_def shape_rules batchnorm2d_shape_single)
qed

lemma even_kernel_bounds:
  assumes "0 < st" "st < h"
  shows "\<not> (tr \<and> n * (h div st + 1) * (w div st + 1) = 1)"
    and "\<not> (tr \<and> n * down h st * down w st = 1)"
    and "down h st \<noteq> h div st + 1 + 1" and "down h st \<noteq> 1"
proof -
  from assms have q: "1 \<le> h div st" "1 \<le> (h - 1) div st"
    by (simp_all add: Suc_le_eq div_greater_zero_iff)
  then show "\<not> (tr \<and> n * (h div st + 1) * (w div st + 1) = 1)"
    and "\<not> (tr \<and> n * down h st * down w st = 1)"
    using mult3_ne_one [of "h div st + 1" n "w div st + 1"]
      mult3_ne_one [of "down h st" n "down w st"]
    by (simp_all add: down_def)
  show "down h st \<noteq> h div st + 1 + 1" "down h st \<noteq> 1"
    using q div_le_mono [of "h - 1" h st] by (simp_all add: down_def)
qed

section \<open>Properties\<close>

text \<open>
  C1. For an odd kernel, a positive stride, at least one output channel and a non-empty input \<open>[N, C_in, H, W]\<close>,
  the block's forward pass returns \<open>[N, C_out, H', W']\<close> with
  \<open>H' = (H - 1) div stride + 1\<close> (likewise \<open>W'\<close>), whatever the channels, the
  stride and the batch-norm setting; the only failure is batch norm in training mode
  when each channel holds a single value (\<open>N H' W' = 1\<close>).
\<close>

theorem BasicBlock_forward_shape:
  assumes "odd k" "0 < st" "0 < cout" "1 \<le> h" "1 \<le> w"
  shows "BasicBlock_forward (shape_backend tr) (fst (run_state (BasicBlock_init cin cout k st bn) s))
           [n, cin, h, w] =
         (if tr \<and> bn \<and> n * down h st * down w st = 1 then Inl TooFewValues
          else Inr [n, cout, down h st, down w st])"
proof (cases "tr \<and> bn \<and> n * down h st * down w st = 1")
  case True
  with assms show ?thesis using BasicBlock_forward_too_few by simp
next
  case False
  with assms show ?thesis using BasicBlock_forward_ok by simp
qed

theorem BasicBlock_forward_shape_witness:
  "odd (3::nat) \<and> 0 < (2::nat) \<and> 0 < (32::nat) \<and> 1 \<le> (96::nat) \<and> 1 \<le> (96::nat) \<and>
   BasicBlock_forward (shape_backend True) (fst (run_state (BasicBlock_init 16 32 3 2 True) empty_store))
     [8, 16, 96, 96] = Inr [8, 32, 48, 48]"
  using BasicBlock_forward_shape [where k = 3 and st = 2 and h = 96 and w = 96 and tr = True
      and bn = True and n = 8 and cin = 16 and cout = 32 and s = empty_store]
  by (simp add: down_def)

text \<open>
  C2. The constructor leaves the shortcut branch empty (the identity \<open>nn.Sequential()\<close>)
  exactly when the stride is 1 and the channel count is unchanged; otherwise it holds
  the \<open>1 \<times> 1\<close> projection.
\<close>

theorem BasicBlock_shortcut_identity:
  "shortcut (fst (run_state (BasicBlock_init cin cout k st bn) s)) = [] \<longleftrightarrow>
   st = 1 \<and> cin = cout"
  by (simp add: init_simps)

text \<open>
  C3. Whatever \<open>use_batchnorm\<close> is, the second branch \<open>conv2\<close> is a single
  convolution: the batch norm appended to \<open>conv_block2\<close> after \<open>self.conv2\<close> was
  built never reaches it, and with \<open>use_batchnorm=True\<close> that convolution also has no
  bias. The second branch is therefore neither normalised nor biased.
\<close>

theorem BasicBlock_conv2_without_batchnorm:
  "\<exists>w. conv2 (fst (run_state (BasicBlock_init cin cout k st bn) s)) =
     [Conv2d cout cout k 1 (k div 2) w (if bn then None else Some (Suc w))]"
  by (simp add: init_simps)

text \<open>
  C4. With an even kernel (and at least one output channel, so that the convolutions
  run) the two paths of the block disagree in size: the main path
  grows each spatial side (padding \<open>k div 2\<close> adds one row per convolution) while the
  shortcut does not, so as soon as the stride is below the input height the residual
  addition raises a broadcast error.
\<close>

theorem BasicBlock_even_kernel_mismatch:
  assumes "even k" "0 < k" "0 < st" "0 < cout" "st < h" "1 \<le> w"
  shows "BasicBlock_forward (shape_backend tr) (fst (run_state (BasicBlock_init cin cout k st bn) s))
           [n, cin, h, w] = Inl BroadcastError"
proof -
  note b = even_kernel_bounds [OF assms(3,5)]
  have c2: "conv2d_shape cout cout k 1 (k div 2) [n, cout, h div st + 1, w div st + 1] =
        Inr [n, cout, h div st + 1 + 1, w div st + 1 + 1]"
    using assms conv2d_shape_even [of k 1] by simp
  show ?thesis
  proof (cases "st = 1 \<and> cin = cout")
    case True
    with assms b c2 show ?thesis
      by (simp add: init_simps BasicBlock_forward_def shape_rules conv2d_shape_even iadd_shape_4d)
  next
    case False
    with assms b c2 show ?thesis
      by (simp add: init_simps BasicBlock_forward_def shape_rules conv2d_shape_even iadd_shape_4d)
  qed
qed

theorem BasicBlock_even_kernel_mismatch_witness:
  "even (2::nat) \<and> 0 < (2::nat) \<and> 0 < (1::nat) \<and> 0 < (16::nat) \<and> (1::nat) < 32 \<and> 1 \<le> (32::nat) \<and>
   BasicBlock_forward (shape_backend False) (fst (run_state (BasicBlock_init 16 16 2 1 False) empty_store))
     [4, 16, 32, 32] = Inl BroadcastError"
  using BasicBlock_even_kernel_mismatch [where k = 2 and st = 1 and h = 32 and w = 32
      and tr = False and n = 4 and cin = 16 and cout = 16 and bn = False and s = empty_store]
  by simp

end
