(* ===== verification/ClassifyingResNet.thy ===== *)
theory ClassifyingResNet
  imports BasicBlock
begin

text \<open>
  \<open>ClassifyingResNet\<close> of \<^verbatim>\<open>src/src/models/classifying_resnet.py\<close>: a stem
  (7 \<open>\<times>\<close> 7 stride-2 convolution with optional batch norm, 3 \<open>\<times>\<close> 3 stride-2 max
  pooling, ReLU), four stages of \<open>BasicBlock\<close>s built by \<open>_make_layer\<close>, global
  average pooling, flattening and a linear head. \<open>ClassifyingResNet_init\<close> is
  \<open>__init__\<close> (the list lookups that can raise \<open>IndexError\<close>, then the allocation of
  every module in order), \<open>make_layer\<close> is \<open>_make_layer\<close> with its loop
  \<open>repeat_blocks\<close>, and \<open>ClassifyingResNet_forward\<close> is \<open>forward\<close> over any
  backend.
\<close>

record ClassifyingResNet =
  use_batchnorm :: bool
  conv_block :: "layer list"
  max_pool :: layer
  layer1 :: "BasicBlock list"
  layer2 :: "BasicBlock list"
  layer3 :: "BasicBlock list"
  layer4 :: "BasicBlock list"
  global_pool :: layer
  fc :: layer

text \<open>
  The loop \<open>for _ in range(1, block_count)\<close> of \<open>_make_layer\<close>: \<open>m\<close> more blocks,
  each from \<open>out_channels\<close> to \<open>out_channels\<close> and each with the stage's stride.
\<close>

fun repeat_blocks :: "nat \<Rightarrow> nat \<Rightarrow> nat \<Rightarrow> bool \<Rightarrow> (store, BasicBlock list) state" where
  "repeat_blocks 0 out_channels stride bn = State_Monad.return []"
| "repeat_blocks (Suc m) out_channels stride bn = do {
     b \<leftarrow> BasicBlock_init out_channels out_channels 3 stride bn;
     bs \<leftarrow> repeat_blocks m out_channels stride bn;
     State_Monad.return (b # bs)
   }"

text \<open>
  \<open>_make_layer\<close>: at least one block; \<open>range(1, block_count)\<close> has
  \<open>max 0 (block_count - 1)\<close> elements, so a count of zero or less still gives one block.
\<close>

definition make_layer :: "bool \<Rightarrow> nat \<Rightarrow> nat \<Rightarrow> int \<Rightarrow> nat \<Rightarrow> (store, BasicBlock list) state" where
  "make_layer bn in_channels out_channels block_count stride = do {
     b \<leftarrow> BasicBlock_init in_channels out_channels 3 stride bn;
     bs \<leftarrow> repeat_blocks (nat (block_count - 1)) out_channels stride bn;
     State_Monad.return (b # bs)
   }"

text \<open>
  The arguments of one stage, read from the three configuration lists in the order
  Python evaluates them: \<open>block_channels[i]\<close>, \<open>num_blocks[i]\<close>, \<open>strides[i]\<close>.
\<close>

definition stage_config :: "nat list \<Rightarrow> int list \<Rightarrow> nat list \<Rightarrow> int \<Rightarrow> (nat \<times> int \<times> nat) result" where
  "stage_config block_channels num_blocks strides i =
     rbind (py_index block_channels i) (\<lambda>c.
     rbind (py_index num_blocks i) (\<lambda>n.
     rbind (py_index strides i) (\<lambda>st. Inr (c, n, st))))"

text \<open>
  \<open>__init__\<close>. The list lookups of lines 122--131 are made first: an \<open>IndexError\<close>
  aborts the construction, and the modules allocated before it are garbage, so the
  result is the error alone. Otherwise the modules are allocated in the order of the
  source: stem convolution, its batch norm, the four stages, the linear head
  (\<open>nn.Linear(block_channels[-1], num_classes)\<close>).
\<close>

definition ClassifyingResNet_build ::
  "nat \<Rightarrow> nat \<Rightarrow> bool \<Rightarrow> nat \<times> int \<times> nat \<Rightarrow> nat \<times> int \<times> nat \<Rightarrow> nat \<times> int \<times> nat \<Rightarrow>
   nat \<times> int \<times> nat \<Rightarrow> nat \<Rightarrow> (store, ClassifyingResNet) state" where
  "ClassifyingResNet_build in_channels num_classes bn cfg1 cfg2 cfg3 cfg4 c_last =
     (case (cfg1, cfg2, cfg3, cfg4) of ((c1, n1, s1), (c2, n2, s2), (c3, n3, s3), (c4, n4, s4)) \<Rightarrow> do {
       conv \<leftarrow> Conv2d_new in_channels in_channels 7 2 3 (\<not> bn);
       stem \<leftarrow> (if bn
                then do { norm \<leftarrow> BatchNorm2d_new in_channels; State_Monad.return [conv, norm] }
                else State_Monad.return [conv]);
       l1 \<leftarrow> make_layer bn in_channels c1 n1 s1;
       l2 \<leftarrow> make_layer bn c1 c2 n2 s2;
       l3 \<leftarrow> make_layer bn c2 c3 n3 s3;
       l4 \<leftarrow> make_layer bn c3 c4 n4 s4;
       head \<leftarrow> Linear_new c_last num_classes;
       State_Monad.return
         \<lparr>use_batchnorm = bn, conv_block = stem, max_pool = MaxPool2d 3 2 1,
          layer1 = l1, layer2 = l2, layer3 = l3, layer4 = l4,
          global_pool = AdaptiveAvgPool2d 1 1, fc = head\<rparr>
     })"

definition ClassifyingResNet_init ::
  "nat \<Rightarrow> nat \<Rightarrow> nat list \<Rightarrow> int list \<Rightarrow> nat list \<Rightarrow> bool \<Rightarrow> store \<Rightarrow>
   (ClassifyingResNet \<times> store) result" where
  "ClassifyingResNet_init in_channels num_classes block_channels num_blocks strides bn s =
     rbind (stage_config block_channels num_blocks strides 0) (\<lambda>cfg1.
     rbind (stage_config block_channels num_blocks strides 1) (\<lambda>cfg2.
     rbind (stage_config block_channels num_blocks strides 2) (\<lambda>cfg3.
     rbind (stage_config block_channels num_blocks strides 3) (\<lambda>cfg4.
     rbind (py_index block_channels (-1)) (\<lambda>c_last.
     Inr (run_state
       (ClassifyingResNet_build in_channels num_classes bn cfg1 cfg2 cfg3 cfg4 c_last)
       s))))))"

text \<open>\<open>nn.Sequential\<close> of blocks.\<close>

fun blocks_forward :: "'t backend \<Rightarrow> BasicBlock list \<Rightarrow> 't \<Rightarrow> 't result" where
  "blocks_forward be [] x = Inr x"
| "blocks_forward be (b # bs) x = rbind (BasicBlock_forward be b x) (blocks_forward be bs)"

definition ClassifyingResNet_forward :: "'t backend \<Rightarrow> ClassifyingResNet \<Rightarrow> 't \<Rightarrow> 't result" where
  "ClassifyingResNet_forward be net x =
     rbind (seq_forward be (conv_block net) x) (\<lambda>x.
     rbind (run_layer be (max_pool net) x) (\<lambda>x.
     let x = relu be x in
     rbind (blocks_forward be (layer1 net) x) (\<lambda>x.
     rbind (blocks_forward be (layer2 net) x) (\<lambda>x.
     rbind (blocks_forward be (layer3 net) x) (\<lambda>x.
     rbind (blocks_forward be (layer4 net) x) (\<lambda>x.
     rbind (run_layer be (global_pool net) x) (\<lambda>x.
     rbind (flatten1 be x) (\<lambda>x.
     run_layer be (fc net) x))))))))"

text \<open>
  The spatial size after \<open>m\<close> blocks of stride \<open>st\<close> (a helper of the
  statements, not code of the repository).
\<close>

fun downs :: "nat \<Rightarrow> nat \<Rightarrow> nat \<Rightarrow> nat" where
  "downs h st 0 = h"
| "downs h st (Suc m) = downs (down h st) st m"

text \<open>
  The spatial size of the feature map that leaves the fourth stage, for an input side
  \<open>h\<close>: the stem convolution and the max pooling halve it, and each stage applies its
  stride once per block, with at least one block (a helper of the statements).
\<close>

definition feature_size :: "nat \<Rightarrow> (int \<times> nat) list \<Rightarrow> nat" where
  "feature_size h stages =
     foldl (\<lambda>x (nb, st). downs x st (max 1 (nat nb))) (down (down h 2) 2) stages"

text \<open>\<open>net.parameters()\<close>, in registration order.\<close>

definition resnet_params :: "ClassifyingResNet \<Rightarrow> nat list" where
  "resnet_params net =
     concat (map layer_params (conv_block net)) @
     concat (map block_params (layer1 net @ layer2 net @ layer3 net @ layer4 net)) @
     layer_params (fc net)"

section \<open>Construction\<close>

lemma ClassifyingResNet_init_eq:
  "ClassifyingResNet_init cin ncls bcs nbs sts bn s =
     (if 4 \<le> length bcs \<and> 4 \<le> length nbs \<and> 4 \<le> length sts
      then Inr (run_state (ClassifyingResNet_build cin ncls bn (bcs ! 0, nbs ! 0, sts ! 0)
             (bcs ! 1, nbs ! 1, sts ! 1) (bcs ! 2, nbs ! 2, sts ! 2) (bcs ! 3, nbs ! 3, sts ! 3)
             (last bcs)) s)
      else Inl IndexError)"
  by (auto simp add: ClassifyingResNet_init_def stage_config_def)

section \<open>Shapes through the stages\<close>

lemma downs_pos [simp]:
  "1 \<le> h \<Longrightarrow> 1 \<le> downs h st m" "1 \<le> h \<Longrightarrow> Suc 0 \<le> downs h st m"
  "1 \<le> h \<Longrightarrow> 0 < downs h st m"
  by (induction m arbitrary: h) simp_all

lemma maxpool2d_shape_same [shape_rules]:
  "odd k \<Longrightarrow> 0 < st \<Longrightarrow> 0 < c \<Longrightarrow> 1 \<le> h \<Longrightarrow> 1 \<le> w \<Longrightarrow>
   maxpool2d_shape k st (k div 2) [n, c, h, w] = Inr [n, c, down h st, down w st]"
  by (auto simp add: maxpool2d_shape_def out_len_odd elim: oddE)

lemma downs_one [simp]: "downs (Suc 0) st m = Suc 0"
  by (induction m) (simp_all add: down_def)

lemma down_one [simp]: "down (Suc 0) st = Suc 0"
  by (simp add: down_def)

text \<open>
  In training mode a batch norm raises on a single value per channel, and the spatial
  sizes never grow: once a map is \<open>1 \<times> 1\<close> with a batch of one, it stays so.
\<close>

lemma single_value_downs:
  "tr \<and> bn \<and> n * h * w = (1::nat) \<Longrightarrow> tr \<and> bn \<and> n * downs h st m * downs w st m = 1"
  by simp

lemma single_value_down:
  "tr \<and> bn \<and> n * h * w = (1::nat) \<Longrightarrow> tr \<and> bn \<and> n * down h st * down w st = 1"
  by simp

lemma block_forward_cases:
  assumes "odd k" "0 < st" "0 < cout" "1 \<le> h" "1 \<le> w"
  shows "BasicBlock_forward (shape_backend tr) (fst (run_state (BasicBlock_init cin cout k st bn) s))
           [n, cin, h, w] =
         (if tr \<and> bn \<and> n * down h st * down w st = 1 then Inl TooFewValues
          else Inr [n, cout, down h st, down w st])"
  using assms BasicBlock_forward_ok [OF assms] BasicBlock_forward_too_few [OF assms, of _ n]
  by (cases tr) auto

lemma repeat_blocks_forward:
  assumes "0 < st" "0 < c" "1 \<le> h" "1 \<le> w" "\<not> (tr \<and> bn \<and> n * h * w = 1)"
  shows "blocks_forward (shape_backend tr) (fst (run_state (repeat_blocks m c st bn) s)) [n, c, h, w] =
         (if tr \<and> bn \<and> n * downs h st m * downs w st m = 1 then Inl TooFewValues
          else Inr [n, c, downs h st m, downs w st m])"
  using assms
proof (induction m arbitrary: h w s)
  case 0
  then show ?case by simp
next
  case (Suc m)
  have blk: "BasicBlock_forward (shape_backend tr) (fst (run_state (BasicBlock_init c c 3 st bn) s))
      [n, c, h, w] = (if tr \<and> bn \<and> n * down h st * down w st = 1 then Inl TooFewValues
        else Inr [n, c, down h st, down w st])"
    using Suc.prems by (intro block_forward_cases) simp_all
  have "blocks_forward (shape_backend tr) (fst (run_state (repeat_blocks (Suc m) c st bn) s)) [n, c, h, w] =
      rbind (BasicBlock_forward (shape_backend tr) (fst (run_state (BasicBlock_init c c 3 st bn) s))
        [n, c, h, w])
        (blocks_forward (shape_backend tr)
          (fst (run_state (repeat_blocks m c st bn) (snd (run_state (BasicBlock_init c c 3 st bn) s)))))"
    by (simp add: split_def)
  also have "\<dots> = (if tr \<and> bn \<and> n * downs h st (Suc m) * downs w st (Suc m) = 1 then Inl TooFewValues
      else Inr [n, c, downs h st (Suc m), downs w st (Suc m)])"
    unfolding blk downs.simps
  proof (rule rbind_if_error)
    show "tr \<and> bn \<and> n * down h st * down w st = 1 \<Longrightarrow>
        tr \<and> bn \<and> n * downs (down h st) st m * downs (down w st) st m = 1"
      by (rule single_value_downs)
  next
    assume "\<not> (tr \<and> bn \<and> n * down h st * down w st = 1)"
    with Suc.prems show "blocks_forward (shape_backend tr)
        (fst (run_state (repeat_blocks m c st bn) (snd (run_state (BasicBlock_init c c 3 st bn) s))))
        [n, c, down h st, down w st] =
      (if tr \<and> bn \<and> n * downs (down h st) st m * downs (down w st) st m = 1 then Inl TooFewValues
       else Inr [n, c, downs (down h st) st m, downs (down w st) st m])"
      by (intro Suc.IH) simp_all
  qed
  finally show ?case .
qed

lemma stages_max: "Suc (nat (b - 1)) = max 1 (nat b)"
  by simp

text \<open>
  A stage: the first block changes the channels, and every block applies the stride; in
  training mode with batch norm it raises exactly when its output is a single value per
  channel.
\<close>

lemma make_layer_forward:
  assumes "0 < st" "0 < cout" "1 \<le> h" "1 \<le> w"
  shows "blocks_forward (shape_backend tr) (fst (run_state (make_layer bn cin cout bc st) s))
           [n, cin, h, w] =
         (if tr \<and> bn \<and> n * downs h st (max 1 (nat bc)) * downs w st (max 1 (nat bc)) = 1
          then Inl TooFewValues
          else Inr [n, cout, downs h st (max 1 (nat bc)), downs w st (max 1 (nat bc))])"
proof -
  let ?m = "nat (bc - 1)" and ?t = "snd (run_state (BasicBlock_init cin cout 3 st bn) s)"
  have blk: "BasicBlock_forward (shape_backend tr) (fst (run_state (BasicBlock_init cin cout 3 st bn) s))
      [n, cin, h, w] = (if tr \<and> bn \<and> n * down h st * down w st = 1 then Inl TooFewValues
        else Inr [n, cout, down h st, down w st])"
    using assms by (intro block_forward_cases) simp_all
  have "blocks_forward (shape_backend tr) (fst (run_state (make_layer bn cin cout bc st) s)) [n, cin, h, w] =
      rbind (BasicBlock_forward (shape_backend tr) (fst (run_state (BasicBlock_init cin cout 3 st bn) s))
        [n, cin, h, w])
        (blocks_forward (shape_backend tr) (fst (run_state (repeat_blocks ?m cout st bn) ?t)))"
    by (simp add: make_layer_def split_def)
  also have "\<dots> = (if tr \<and> bn \<and> n * downs h st (Suc ?m) * downs w st (Suc ?m) = 1 then Inl TooFewValues
      else Inr [n, cout, downs h st (Suc ?m), downs w st (Suc ?m)])"
    unfolding blk downs.simps
  proof (rule rbind_if_error)
    show "tr \<and> bn \<and> n * down h st * down w st = 1 \<Longrightarrow>
        tr \<and> bn \<and> n * downs (down h st) st ?m * downs (down w st) st ?m = 1"
      by (rule single_value_downs)
  next
    assume "\<not> (tr \<and> bn \<and> n * down h st * down w st = 1)"
    with assms show "blocks_forward (shape_backend tr) (fst (run_state (repeat_blocks ?m cout st bn) ?t))
        [n, cout, down h st, down w st] =
      (if tr \<and> bn \<and> n * downs (down h st) st ?m * downs (down w st) st ?m = 1 then Inl TooFewValues
       else Inr [n, cout, downs (down h st) st ?m, downs (down w st) st ?m])"
      by (intro repeat_blocks_forward) simp_all
  qed
  finally show ?thesis by (simp only: stages_max)
qed

lemma stem_forward:
  assumes "0 < cin" "1 \<le> h" "1 \<le> w"
  shows "seq_forward (shape_backend tr)
      (conv_block (fst (run_state (ClassifyingResNet_build cin ncls bn cfg1 cfg2 cfg3 cfg4 cl) s)))
      [n, cin, h, w] =
    (if tr \<and> bn \<and> n * down h 2 * down w 2 = 1 then Inl TooFewValues else Inr [n, cin, down h 2, down w 2])"
proof -
  have conv: "conv2d_shape cin cin 7 2 3 [m, cin, h, w] = Inr [m, cin, down h 2, down w 2]" for m
    using conv2d_shape_same [of 7 2 cin h w cin m] assms by simp
  show ?thesis
    by (cases cfg1, cases cfg2, cases cfg3, cases cfg4)
       (simp add: ClassifyingResNet_build_def constructor_defs batchnorm2d_shape_def split_def conv)
qed

lemma build_forward:
  assumes "0 < s1" "0 < s2" "0 < s3" "0 < s4" "0 < cin" "0 < c1" "0 < c2" "0 < c3" "0 < c4"
    and "1 \<le> h" "1 \<le> w"
  shows "ClassifyingResNet_forward (shape_backend tr)
     (fst (run_state (ClassifyingResNet_build cin ncls bn (c1, n1, s1) (c2, n2, s2) (c3, n3, s3)
        (c4, n4, s4) cl) s))
     [n, cin, h, w] =
     (if tr \<and> bn \<and> n * feature_size h [(n1, s1), (n2, s2), (n3, s3), (n4, s4)]
                   * feature_size w [(n1, s1), (n2, s2), (n3, s3), (n4, s4)] = 1
      then Inl TooFewValues
      else if c4 = cl then Inr [n, ncls] else Inl (FeatureMismatch cl c4))"
proof -
  define net where "net = fst (run_state (ClassifyingResNet_build cin ncls bn (c1, n1, s1)
     (c2, n2, s2) (c3, n3, s3) (c4, n4, s4) cl) s)"
  define be where "be = shape_backend tr"
  define h0 w0 where "h0 = down (down h 2) 2" and "w0 = down (down w 2) 2"
  define k1 k2 k3 k4 where "k1 = max 1 (nat n1)" and "k2 = max 1 (nat n2)"
    and "k3 = max 1 (nat n3)" and "k4 = max 1 (nat n4)"
  define h1 w1 where "h1 = downs h0 s1 k1" and "w1 = downs w0 s1 k1"
  define h2 w2 where "h2 = downs h1 s2 k2" and "w2 = downs w1 s2 k2"
  define h3 w3 where "h3 = downs h2 s3 k3" and "w3 = downs w2 s3 k3"
  define h4 w4 where "h4 = downs h3 s4 k4" and "w4 = downs w3 s4 k4"
  define P where "P = (\<lambda>a b. tr \<and> bn \<and> n * a * b = (1::nat))"
  define head where "head = (if c4 = cl then Inr [n, ncls] else Inl (FeatureMismatch cl c4) :: shape result)"
  have p0: "1 \<le> h0" "1 \<le> w0" by (simp_all add: h0_def w0_def)
  then have p1: "1 \<le> h1" "1 \<le> w1" by (simp_all only: h1_def w1_def downs_pos)
  then have p2: "1 \<le> h2" "1 \<le> w2" by (simp_all only: h2_def w2_def downs_pos)
  then have p3: "1 \<le> h3" "1 \<le> w3" by (simp_all only: h3_def w3_def downs_pos)
  have mono: "P a b \<Longrightarrow> P (downs a st m) (downs b st m)" "P a b \<Longrightarrow> P (down a st) (down b st)" for a b st m
    unfolding P_def by (rule single_value_downs, assumption) (rule single_value_down, assumption)
  have ml: "blocks_forward be (fst (run_state (make_layer bn ci co nb st) t)) [n, ci, a, b] =
      (if P (downs a st (max 1 (nat nb))) (downs b st (max 1 (nat nb))) then Inl TooFewValues
       else Inr [n, co, downs a st (max 1 (nat nb)), downs b st (max 1 (nat nb))])"
    if "0 < st" "0 < co" "1 \<le> a" "1 \<le> b" for ci co nb st t a b
    using make_layer_forward [OF that, where bn = bn and cin = ci and bc = nb and tr = tr and s = t and n = n] by (simp only: P_def be_def)
  have tail: "rbind (run_layer be (global_pool net) [n, c4, h4, w4]) (\<lambda>x.
      rbind (flatten1 be x) (run_layer be (fc net))) = head"
    using p3 assms(4,9)
    by (simp add: be_def net_def head_def h4_def w4_def ClassifyingResNet_build_def constructor_defs
        split_def adaptive_avgpool2d_shape_def flatten1_shape_def linear_shape_def)
  define T4 where "T4 = (\<lambda>x. rbind (blocks_forward be (layer4 net) x) (\<lambda>x.
      rbind (run_layer be (global_pool net) x) (\<lambda>x. rbind (flatten1 be x) (run_layer be (fc net)))))"
  define T3 where "T3 = (\<lambda>x. rbind (blocks_forward be (layer3 net) x) T4)"
  define T2 where "T2 = (\<lambda>x. rbind (blocks_forward be (layer2 net) x) T3)"
  define T1 where "T1 = (\<lambda>x. rbind (blocks_forward be (layer1 net) x) T2)"
  note layers = net_def ClassifyingResNet_build_def split_def
  have b4: "blocks_forward be (layer4 net) [n, c3, h3, w3] =
      (if P h4 w4 then Inl TooFewValues else Inr [n, c4, h4, w4])"
    using ml [of s4 c4 h3 w3] p3 assms(4,9) by (simp add: layers h4_def w4_def k4_def)
  have b3: "blocks_forward be (layer3 net) [n, c2, h2, w2] =
      (if P h3 w3 then Inl TooFewValues else Inr [n, c3, h3, w3])"
    using ml [of s3 c3 h2 w2] p2 assms(3,8) by (simp add: layers h3_def w3_def k3_def)
  have b2: "blocks_forward be (layer2 net) [n, c1, h1, w1] =
      (if P h2 w2 then Inl TooFewValues else Inr [n, c2, h2, w2])"
    using ml [of s2 c2 h1 w1] p1 assms(2,7) by (simp add: layers h2_def w2_def k2_def)
  have b1: "blocks_forward be (layer1 net) [n, cin, h0, w0] =
      (if P h1 w1 then Inl TooFewValues else Inr [n, c1, h1, w1])"
    using ml [of s1 c1 h0 w0] p0 assms(1,6) by (simp add: layers h1_def w1_def k1_def)
  have l4: "T4 [n, c3, h3, w3] = (if P h4 w4 then Inl TooFewValues else head)"
    unfolding T4_def b4 by (rule rbind_if_error) (simp_all add: tail)
  have l3: "T3 [n, c2, h2, w2] = (if P h4 w4 then Inl TooFewValues else head)"
    unfolding T3_def b3 by (rule rbind_if_error) (simp_all add: l4 h4_def w4_def mono)
  have l2: "T2 [n, c1, h1, w1] = (if P h4 w4 then Inl TooFewValues else head)"
    unfolding T2_def b2 by (rule rbind_if_error) (simp_all add: l3 h3_def w3_def h4_def w4_def mono)
  have l1: "T1 [n, cin, h0, w0] = (if P h4 w4 then Inl TooFewValues else head)"
    unfolding T1_def b1
    by (rule rbind_if_error) (simp_all add: l2 h2_def w2_def h3_def w3_def h4_def w4_def mono)
  have pool: "run_layer be (max_pool net) [n, cin, down h 2, down w 2] = Inr [n, cin, h0, w0]"
    using maxpool2d_shape_same [of 3 2 cin "down h 2" "down w 2" n] assms(5)
    by (simp add: layers be_def h0_def w0_def)
  have stem: "seq_forward be (conv_block net) [n, cin, h, w] =
      (if P (down h 2) (down w 2) then Inl TooFewValues else Inr [n, cin, down h 2, down w 2])"
    using stem_forward [OF assms(5,10,11)] by (simp only: net_def be_def P_def)
  have "ClassifyingResNet_forward be net [n, cin, h, w] =
      rbind (seq_forward be (conv_block net) [n, cin, h, w])
        (\<lambda>x. rbind (run_layer be (max_pool net) x) (\<lambda>x. T1 (relu be x)))"
    by (simp add: ClassifyingResNet_forward_def T1_def T2_def T3_def T4_def)
  also have "\<dots> = (if P h4 w4 then Inl TooFewValues else head)"
    unfolding stem
  proof (rule rbind_if_error)
    show "P (down h 2) (down w 2) \<Longrightarrow> P h4 w4"
      by (simp add: h0_def w0_def h1_def w1_def h2_def w2_def h3_def w3_def h4_def w4_def mono)
    have "relu be x = x" for x by (simp add: be_def)
    then show "rbind (run_layer be (max_pool net) [n, cin, down h 2, down w 2]) (\<lambda>x. T1 (relu be x)) =
        (if P h4 w4 then Inl TooFewValues else head)"
      by (simp add: pool l1)
  qed
  finally show ?thesis
    by (simp add: net_def be_def P_def head_def feature_size_def h0_def w0_def h1_def w1_def h2_def w2_def
        h3_def w3_def h4_def w4_def k1_def k2_def k3_def k4_def)
qed

lemma ClassifyingResNet_init_Inr:
  assumes "ClassifyingResNet_init cin ncls bcs nbs sts bn s = Inr (net, s')"
  shows "4 \<le> length bcs" "4 \<le> length nbs" "4 \<le> length sts"
    and "net = fst (run_state (ClassifyingResNet_build cin ncls bn (bcs ! 0, nbs ! 0, sts ! 0)
           (bcs ! 1, nbs ! 1, sts ! 1) (bcs ! 2, nbs ! 2, sts ! 2) (bcs ! 3, nbs ! 3, sts ! 3)
           (last bcs)) s)"
  using assms by (simp_all add: ClassifyingResNet_init_eq split: if_splits)

lemma strides_pos: "\<forall>i<4. 0 < sts ! i \<Longrightarrow> 0 < sts ! 0 \<and> 0 < sts ! 1 \<and> 0 < sts ! 2 \<and> 0 < sts ! 3"
  by simp

lemma downs_numeral [simp]: "downs h st (numeral k) = downs (down h st) st (pred_numeral k)"
  by (simp add: numeral_eq_Suc)

lemma take_zip_four:
  assumes "4 \<le> length xs" "4 \<le> length ys"
  shows "take 4 (zip xs ys) = [(xs ! 0, ys ! 0), (xs ! 1, ys ! 1), (xs ! 2, ys ! 2), (xs ! 3, ys ! 3)]"
proof -
  from assms(1) obtain a b c d xs' where "xs = a # b # c # d # xs'"
    by (auto simp add: numeral_eq_Suc Suc_le_length_iff)
  moreover from assms(2) obtain a' b' c' d' ys' where "ys = a' # b' # c' # d' # ys'"
    by (auto simp add: numeral_eq_Suc Suc_le_length_iff)
  ultimately show ?thesis by (simp add: numeral_eq_Suc)
qed

lemma default_build_forward:
  "ClassifyingResNet_forward (shape_backend tr)
     (fst (run_state (ClassifyingResNet_build 3 10 True (16, 2, 2) (32, 2, 1) (64, 2, 1) (128, 2, 1) 128) s))
     [n, 3, 96, 96] = Inr [n, 10]"
proof -
  have "feature_size 96 [(2, 2), (2, 1), (2, 1), (2, 1)] = 6"
    by (simp add: feature_size_def down_def)
  then show ?thesis
    using build_forward [of 2 1 1 1 3 16 32 64 128 96 96 tr 10 True 2 2 2 2 128 s n] by simp
qed

subsection \<open>Allocation\<close>

text \<open>
  Every parameter of the network is a fresh address of the store, allocated by
  \<open>__init__\<close>: the blocks of a stage, the stem, the stages and the head in turn.
\<close>

lemma repeat_blocks_allocates:
  "allocates (\<lambda>bs. concat (map block_params bs)) (repeat_blocks m c st bn)"
proof (induction m)
  case 0
  show ?case by (rule allocatesI) simp_all
next
  case (Suc m)
  show ?case
    unfolding repeat_blocks.simps
    by (rule allocates_bind [OF BasicBlock_init_allocates Suc.IH]) auto
qed

lemma make_layer_allocates:
  "allocates (\<lambda>bs. concat (map block_params bs)) (make_layer bn cin cout bc st)"
  unfolding make_layer_def
  by (rule allocates_bind [OF BasicBlock_init_allocates repeat_blocks_allocates]) auto


lemma stem_allocates:
  assumes "run_state (if bn then do { norm \<leftarrow> BatchNorm2d_new c; State_Monad.return [conv, norm] }
                      else State_Monad.return [conv]) t = (stem, t')"
  shows "lim t \<le> lim t'"
    and "a \<in> set (concat (map layer_params stem)) \<Longrightarrow> a \<in> set (layer_params conv) \<or> lim t \<le> a \<and> a < lim t'"
  using assms allocatesD [OF BatchNorm2d_new_allocates [of c], where s = t]
  by (auto split: if_splits simp add: split_def)

lemma build_allocates:
  "allocates resnet_params (ClassifyingResNet_build cin ncls bn cfg1 cfg2 cfg3 cfg4 cl)"
proof -
  obtain c1 n1 s1 c2 n2 s2 c3 n3 s3 c4 n4 s4 where
    cfg: "cfg1 = (c1, n1, s1)" "cfg2 = (c2, n2, s2)" "cfg3 = (c3, n3, s3)" "cfg4 = (c4, n4, s4)"
    by (cases cfg1, cases cfg2, cases cfg3, cases cfg4) auto
  show ?thesis
  proof (rule allocatesI)
    fix s
    obtain conv t1 where r1: "run_state (Conv2d_new cin cin 7 2 3 (\<not> bn)) s = (conv, t1)"
      by fastforce
    obtain stem t2 where r2: "run_state (if bn then do { norm \<leftarrow> BatchNorm2d_new cin; State_Monad.return [conv, norm] }
      else State_Monad.return [conv]) t1 = (stem, t2)" by fastforce
    obtain l1 t3 where r3: "run_state (make_layer bn cin c1 n1 s1) t2 = (l1, t3)" by fastforce
    obtain l2 t4 where r4: "run_state (make_layer bn c1 c2 n2 s2) t3 = (l2, t4)" by fastforce
    obtain l3 t5 where r5: "run_state (make_layer bn c2 c3 n3 s3) t4 = (l3, t5)" by fastforce
    obtain l4 t6 where r6: "run_state (make_layer bn c3 c4 n4 s4) t5 = (l4, t6)" by fastforce
    obtain head t7 where r7: "run_state (Linear_new cl ncls) t6 = (head, t7)" by fastforce
    have run: "run_state (ClassifyingResNet_build cin ncls bn cfg1 cfg2 cfg3 cfg4 cl) s =
      (\<lparr>use_batchnorm = bn, conv_block = stem, max_pool = MaxPool2d 3 2 1,
        layer1 = l1, layer2 = l2, layer3 = l3, layer4 = l4,
        global_pool = AdaptiveAvgPool2d 1 1, fc = head\<rparr>, t7)"
      by (simp add: ClassifyingResNet_build_def cfg r1 r2 r3 r4 r5 r6 r7 split del: if_split)
    note c = allocatesD [OF Conv2d_new_allocates [of cin cin 7 2 3 "\<not> bn"], where s = s, unfolded r1, simplified]
    note st = stem_allocates [OF r2]
    note m1 = allocatesD [OF make_layer_allocates [of bn cin c1 n1 s1], where s = t2, unfolded r3, simplified]
    note m2 = allocatesD [OF make_layer_allocates [of bn c1 c2 n2 s2], where s = t3, unfolded r4, simplified]
    note m3 = allocatesD [OF make_layer_allocates [of bn c2 c3 n3 s3], where s = t4, unfolded r5, simplified]
    note m4 = allocatesD [OF make_layer_allocates [of bn c3 c4 n4 s4], where s = t5, unfolded r6, simplified]
    note h = allocatesD [OF Linear_new_allocates [of cl ncls], where s = t6, unfolded r7, simplified]
    have le: "lim s \<le> lim t1" "lim t1 \<le> lim t2" "lim t2 \<le> lim t3" "lim t3 \<le> lim t4"
      "lim t4 \<le> lim t5" "lim t5 \<le> lim t6" "lim t6 \<le> lim t7"
      using c(1) st(1) m1(1) m2(1) m3(1) m4(1) h(1) by simp_all
    show "lim s \<le> lim (snd (run_state (ClassifyingResNet_build cin ncls bn cfg1 cfg2 cfg3 cfg4 cl) s))"
      using le by (simp add: run)
    fix a
    assume "a \<in> set (resnet_params (fst (run_state (ClassifyingResNet_build cin ncls bn cfg1 cfg2 cfg3 cfg4 cl) s)))"
    then show "lim s \<le> a \<and> a < lim (snd (run_state (ClassifyingResNet_build cin ncls bn cfg1 cfg2 cfg3 cfg4 cl) s))"
      using le c(2,3) st(2) m1(2,3) m2(2,3) m3(2,3) m4(2,3) h(2,3)
      unfolding run by (auto simp add: resnet_params_def) (fastforce+)
  qed
qed

lemma ClassifyingResNet_init_allocates:
  assumes "ClassifyingResNet_init cin ncls bcs nbs sts bn s = Inr (net, s')"
  shows "lim s \<le> lim s'" and "a \<in> set (resnet_params net) \<Longrightarrow> lim s \<le> a \<and> a < lim s'"
proof -
  obtain c1 c2 c3 c4 cl where
    run: "run_state (ClassifyingResNet_build cin ncls bn c1 c2 c3 c4 cl) s = (net, s')"
    using assms by (auto simp add: ClassifyingResNet_init_eq split: if_splits)
  note alloc = allocatesD [OF build_allocates [of cin ncls bn c1 c2 c3 c4 cl], where s = s, unfolded run]
  show "lim s \<le> lim s'" using alloc(1) by simp
  show "a \<in> set (resnet_params net) \<Longrightarrow> lim s \<le> a \<and> a < lim s'"
    using alloc(2,3) by simp
qed

section \<open>Properties\<close>

text \<open>
  C5. For any configuration that \<open>__init__\<close> accepts with exactly four stage widths,
  all of them and the input channels positive, and positive strides, \<open>forward\<close> maps
  every non-empty input \<open>[N, C_in, H, W]\<close> to logits \<open>[N, num_classes]\<close>, except in
  one case: in training mode with batch norm it raises when the map leaving the last
  stage holds a single value per channel (a batch of one image and a \<open>1 \<times> 1\<close> map), as
  the first batch norm that sees a single value does.
\<close>

theorem ClassifyingResNet_forward_shape:
  assumes init: "ClassifyingResNet_init cin ncls bcs nbs sts bn s = Inr (net, s')"
    and "length bcs = 4" "0 < cin" "\<forall>i<4. 0 < bcs ! i" "\<forall>i<4. 0 < sts ! i"
    and "1 \<le> h" "1 \<le> w"
  shows "ClassifyingResNet_forward (shape_backend tr) net [n, cin, h, w] =
    (if tr \<and> bn \<and> n * feature_size h (take 4 (zip nbs sts)) * feature_size w (take 4 (zip nbs sts)) = 1
     then Inl TooFewValues else Inr [n, ncls])"
proof -
  note i = ClassifyingResNet_init_Inr [OF init]
  from \<open>length bcs = 4\<close> have "bcs \<noteq> []" by auto
  with \<open>length bcs = 4\<close> have "last bcs = bcs ! 3" by (simp add: last_conv_nth)
  moreover have "take 4 (zip nbs sts) = [(nbs ! 0, sts ! 0), (nbs ! 1, sts ! 1), (nbs ! 2, sts ! 2),
      (nbs ! 3, sts ! 3)]"
    using i(2,3) by (rule take_zip_four)
  moreover have "0 < sts ! 0" "0 < sts ! 1" "0 < sts ! 2" "0 < sts ! 3"
    and "0 < bcs ! 0" "0 < bcs ! 1" "0 < bcs ! 2" "0 < bcs ! 3"
    using assms(4,5) by simp_all
  ultimately show ?thesis
    using i(4) build_forward [of "sts ! 0" "sts ! 1" "sts ! 2" "sts ! 3" cin "bcs ! 0" "bcs ! 1"
        "bcs ! 2" "bcs ! 3" h w tr ncls bn "nbs ! 0" "nbs ! 1" "nbs ! 2" "nbs ! 3" "last bcs" s n]
      assms(3,6,7)
    by simp
qed

theorem ClassifyingResNet_forward_shape_witness:
  "ClassifyingResNet_init 3 10 [16, 32, 64, 128] [2, 2, 2, 2] [2, 2, 2, 2] True empty_store =
     Inr (fst (run_state (ClassifyingResNet_build 3 10 True (16, 2, 2) (32, 2, 2) (64, 2, 2)
       (128, 2, 2) 128) empty_store), snd (run_state (ClassifyingResNet_build 3 10 True (16, 2, 2)
       (32, 2, 2) (64, 2, 2) (128, 2, 2) 128) empty_store)) \<and>
   length [16, 32, 64, 128::nat] = 4 \<and> 0 < (3::nat) \<and>
   0 < [16, 32, 64, 128::nat] ! 0 \<and> 0 < [16, 32, 64, 128::nat] ! 1 \<and>
   0 < [16, 32, 64, 128::nat] ! 2 \<and> 0 < [16, 32, 64, 128::nat] ! 3 \<and>
   0 < [2, 2, 2, 2::nat] ! 0 \<and> 0 < [2, 2, 2, 2::nat] ! 1 \<and> 0 < [2, 2, 2, 2::nat] ! 2 \<and>
   0 < [2, 2, 2, 2::nat] ! 3 \<and> 1 \<le> (96::nat) \<and>
   ClassifyingResNet_forward (shape_backend True)
     (fst (run_state (ClassifyingResNet_build 3 10 True (16, 2, 2) (32, 2, 2) (64, 2, 2) (128, 2, 2) 128)
       empty_store)) [1, 3, 96, 96] = Inl TooFewValues \<and>
   ClassifyingResNet_forward (shape_backend False)
     (fst (run_state (ClassifyingResNet_build 3 10 True (16, 2, 2) (32, 2, 2) (64, 2, 2) (128, 2, 2) 128)
       empty_store)) [1, 3, 96, 96] = Inr [1, 10]"
proof -
  have init: "ClassifyingResNet_init 3 10 [16, 32, 64, 128] [2, 2, 2, 2] [2, 2, 2, 2] True empty_store =
     Inr (fst (run_state (ClassifyingResNet_build 3 10 True (16, 2, 2) (32, 2, 2) (64, 2, 2)
       (128, 2, 2) 128) empty_store), snd (run_state (ClassifyingResNet_build 3 10 True (16, 2, 2)
       (32, 2, 2) (64, 2, 2) (128, 2, 2) 128) empty_store))"
    by (simp add: ClassifyingResNet_init_eq)
  have w: "\<forall>i<4. 0 < [16, 32, 64, 128::nat] ! i" and st: "\<forall>i<4. 0 < [2, 2, 2, 2::nat] ! i"
    by (simp_all add: less_Suc_eq numeral_eq_Suc)
  have fs: "feature_size 96 (take 4 (zip [2, 2, 2, 2::int] [2, 2, 2, 2::nat])) = 1"
    by (simp add: feature_size_def down_def)
  show ?thesis
    using init fs ClassifyingResNet_forward_shape [OF init _ _ w st, where h = 96 and w = 96 and tr = True
        and n = 1]
      ClassifyingResNet_forward_shape [OF init _ _ w st, where h = 96 and w = 96 and tr = False and n = 1]
    by simp
qed

text \<open>
  C6. The default configuration (\<open>ClassifyingResNet()\<close>: 3 input channels, 10 classes,
  widths \<open>[16, 32, 64, 128]\<close>, two blocks per stage, strides \<open>[2, 1, 1, 1]\<close>, batch
  norm) is constructed without error and maps an STL-10 batch \<open>[N, 3, 96, 96]\<close> to
  \<open>[N, 10]\<close> for every batch size, in training and in evaluation mode.
\<close>

theorem ClassifyingResNet_default_forward:
  "\<exists>net s'. ClassifyingResNet_init 3 10 [16, 32, 64, 128] [2, 2, 2, 2] [2, 1, 1, 1] True s =
     Inr (net, s') \<and>
   (\<forall>n tr. ClassifyingResNet_forward (shape_backend tr) net [n, 3, 96, 96] = Inr [n, 10])"
proof -
  define net where "net = fst (run_state (ClassifyingResNet_build 3 10 True (16, 2, 2) (32, 2, 1)
    (64, 2, 1) (128, 2, 1) 128) s)"
  have init: "ClassifyingResNet_init 3 10 [16, 32, 64, 128] [2, 2, 2, 2] [2, 1, 1, 1] True s =
      Inr (net, snd (run_state (ClassifyingResNet_build 3 10 True (16, 2, 2) (32, 2, 1)
        (64, 2, 1) (128, 2, 1) 128) s))"
    by (simp add: ClassifyingResNet_init_eq net_def)
  moreover have "\<forall>n tr. ClassifyingResNet_forward (shape_backend tr) net [n, 3, 96, 96] = Inr [n, 10]"
    using default_build_forward by (simp add: net_def)
  ultimately show ?thesis by blast
qed

text \<open>
  C7. \<open>__init__\<close> fails exactly when one of \<open>block_channels\<close>, \<open>num_blocks\<close>
  and \<open>strides\<close> has fewer than four entries, and then with \<open>IndexError\<close>; a
  longer list is accepted without complaint.
\<close>

theorem ClassifyingResNet_init_error:
  "ClassifyingResNet_init cin ncls bcs nbs sts bn s = Inl e \<longleftrightarrow>
   e = IndexError \<and> (length bcs < 4 \<or> length nbs < 4 \<or> length sts < 4)"
  by (auto simp add: ClassifyingResNet_init_eq)

text \<open>
  C8. With more than four stage widths (the first four and the input channels positive), \<open>__init__\<close> succeeds but sizes the head by the
  last entry, \<open>nn.Linear(block_channels[-1], num_classes)\<close>, while the fourth stage
  outputs \<open>block_channels[3]\<close> channels: when the two differ every forward pass fails
  at the head with a feature mismatch, instead of the configuration being rejected at
  construction.
\<close>

theorem ClassifyingResNet_extra_widths_fail:
  assumes "4 < length bcs" "4 \<le> length nbs" "4 \<le> length sts" "last bcs \<noteq> bcs ! 3"
    and "0 < cin" "\<forall>i<4. 0 < bcs ! i" "\<forall>i<4. 0 < sts ! i"
    and "1 \<le> h" "1 \<le> w" "\<not> (tr \<and> n = 1)"
  shows "\<exists>net s'. ClassifyingResNet_init cin ncls bcs nbs sts bn s = Inr (net, s') \<and>
    ClassifyingResNet_forward (shape_backend tr) net [n, cin, h, w] =
      Inl (FeatureMismatch (last bcs) (bcs ! 3))"
proof -
  define net where "net = fst (run_state (ClassifyingResNet_build cin ncls bn (bcs ! 0, nbs ! 0, sts ! 0)
     (bcs ! 1, nbs ! 1, sts ! 1) (bcs ! 2, nbs ! 2, sts ! 2) (bcs ! 3, nbs ! 3, sts ! 3) (last bcs)) s)"
  have "ClassifyingResNet_init cin ncls bcs nbs sts bn s = Inr (net, snd (run_state
     (ClassifyingResNet_build cin ncls bn (bcs ! 0, nbs ! 0, sts ! 0) (bcs ! 1, nbs ! 1, sts ! 1)
       (bcs ! 2, nbs ! 2, sts ! 2) (bcs ! 3, nbs ! 3, sts ! 3) (last bcs)) s))"
    using assms by (simp add: ClassifyingResNet_init_eq net_def)
  moreover have "ClassifyingResNet_forward (shape_backend tr) net [n, cin, h, w] =
      Inl (FeatureMismatch (last bcs) (bcs ! 3))"
  proof -
    have "0 < sts ! 0" "0 < sts ! 1" "0 < sts ! 2" "0 < sts ! 3"
      and "0 < bcs ! 0" "0 < bcs ! 1" "0 < bcs ! 2" "0 < bcs ! 3"
      using assms(6,7) by simp_all
    then show ?thesis
      using assms(4,5,8-10) build_forward [of "sts ! 0" "sts ! 1" "sts ! 2" "sts ! 3" cin "bcs ! 0"
          "bcs ! 1" "bcs ! 2" "bcs ! 3" h w tr ncls bn "nbs ! 0" "nbs ! 1" "nbs ! 2" "nbs ! 3" "last bcs" s n]
      by (auto simp add: net_def)
  qed
  ultimately show ?thesis by blast
qed

theorem ClassifyingResNet_extra_widths_fail_witness:
  "\<exists>net s'. ClassifyingResNet_init 3 10 [16, 32, 64, 128, 256] [2, 2, 2, 2] [2, 1, 1, 1] True empty_store =
     Inr (net, s') \<and>
    ClassifyingResNet_forward (shape_backend False) net [2, 3, 96, 96] = Inl (FeatureMismatch 256 128)"
proof -
  have all: "\<forall>i<4. 0 < [2, 1, 1, 1::nat] ! i" and wd: "\<forall>i<4. 0 < [16, 32, 64, 128, 256::nat] ! i"
    by (simp_all add: less_Suc_eq numeral_eq_Suc)
  show ?thesis
    using wd ClassifyingResNet_extra_widths_fail [where bcs = "[16, 32, 64, 128, 256]"
      and nbs = "[2, 2, 2, 2]" and sts = "[2, 1, 1, 1]" and h = 96 and w = 96 and tr = False
      and n = 2 and cin = 3 and ncls = 10 and bn = True and s = empty_store] all
    by simp
qed

text \<open>
  C9. \<open>_make_layer\<close> passes the stage's stride to every block, not only to the first:
  for a stage with at least one output channel,
  a stage of \<open>block_count\<close> blocks (at least one, even for a count of zero or less)
  applies the stride \<open>max 1 block_count\<close> times, so with the default strides the first
  stage shrinks a 24 \<open>\<times>\<close> 24 map to 6 \<open>\<times>\<close> 6.
\<close>

theorem make_layer_stride_every_block:
  assumes "0 < st" "0 < cout" "1 \<le> h" "1 \<le> w" "\<not> (tr \<and> n = 1)"
  shows "blocks_forward (shape_backend tr) (fst (run_state (make_layer bn cin cout bc st) s))
           [n, cin, h, w] =
         Inr [n, cout, downs h st (max 1 (nat bc)), downs w st (max 1 (nat bc))]"
  using make_layer_forward [OF assms(1-4), where bn = bn and cin = cin and bc = bc and tr = tr
      and s = s and n = n] assms(5)
  by auto

theorem make_layer_stride_every_block_witness:
  "0 < (2::nat) \<and> 0 < (16::nat) \<and> 1 \<le> (24::nat) \<and> \<not> (True \<and> (4::nat) = 1) \<and>
   blocks_forward (shape_backend True) (fst (run_state (make_layer True 3 16 2 2) empty_store))
     [4, 3, 24, 24] = Inr [4, 16, 6, 6]"
proof -
  have "downs 24 2 (max 1 (nat 2)) = 6" by (simp add: down_def)
  then show ?thesis
    using make_layer_stride_every_block [where st = 2 and h = 24 and w = 24 and tr = True and n = 4
      and bn = True and cin = 3 and cout = 16 and bc = 2 and s = empty_store]
    by simp
qed

end
