(* ===== verification/ClassGuidedUNet.thy ===== *)
theory ClassGuidedUNet
  imports Torch
begin

text \<open>
  \<open>ClassGuidedUNet\<close> of \<^verbatim>\<open>src/src/models/class_guided_unet.py\<close>. The classifier and
  the U-Net are modules supplied by the caller; the model sees each through its interface:
  a forward function over the backend's tensors and the list of its parameters. The
  U-Net is not part of the repository excerpt, so nothing is assumed of it beyond that
  interface. \<open>ClassGuidedUNet_init\<close> is \<open>__init__\<close>: it allocates the projection
  \<open>nn.Linear(10, feature_channels * 12 * 12)\<close> and then clears \<open>requires_grad\<close> on
  every parameter of the classifier (\<open>freeze_all\<close>, the loop of lines 26--27).
  \<open>ClassGuidedUNet_forward\<close> is \<open>forward\<close>: classifier, projection, \<open>view\<close> to
  \<open>(-1, C, 12, 12)\<close>, U-Net.
\<close>

definition FEATURE_CHANNELS :: nat where
  "FEATURE_CHANNELS = 32"

record 't ClassGuidedUNet =
  classifier :: "'t \<Rightarrow> 't result"
  classifier_params :: "nat list"
  unet :: "'t \<Rightarrow> 't \<Rightarrow> 't result"
  unet_params :: "nat list"
  fc :: layer

text \<open>\<open>for param in params: param.requires_grad = False\<close>.\<close>

fun freeze_all :: "nat list \<Rightarrow> (store, unit) state" where
  "freeze_all [] = State_Monad.return ()"
| "freeze_all (p # ps) = do { State_Monad.update (freeze_param p); freeze_all ps }"

definition ClassGuidedUNet_init ::
  "('t \<Rightarrow> 't result) \<Rightarrow> nat list \<Rightarrow> ('t \<Rightarrow> 't \<Rightarrow> 't result) \<Rightarrow> nat list \<Rightarrow> nat \<Rightarrow>
   (store, 't ClassGuidedUNet) state" where
  "ClassGuidedUNet_init classifier_fwd cparams unet_fwd uparams feature_channels = do {
     proj \<leftarrow> Linear_new 10 (feature_channels * 12 * 12);
     freeze_all cparams;
     State_Monad.return \<lparr>classifier = classifier_fwd, classifier_params = cparams,
       unet = unet_fwd, unet_params = uparams, fc = proj\<rparr>
   }"

text \<open>
  \<open>forward\<close>. The classifier runs under \<open>torch.no_grad()\<close>, which changes no shape;
  \<open>self.fc.out_features // (12 * 12)\<close> is read back from the projection.
\<close>

definition ClassGuidedUNet_forward :: "'t backend \<Rightarrow> 't ClassGuidedUNet \<Rightarrow> 't \<Rightarrow> 't result" where
  "ClassGuidedUNet_forward be g x =
     rbind (classifier g x) (\<lambda>class_out.
     rbind (run_layer be (fc g) class_out) (\<lambda>class_out.
     rbind (view4 be (out_features (fc g) div (12 * 12)) 12 12 class_out) (\<lambda>class_out.
     unet g x class_out)))"

text \<open>
  \<open>model.parameters()\<close>: classifier, U-Net, projection, in registration order; a
  parameter shared by two submodules is reported once, at its first occurrence.
\<close>

definition guided_params :: "'t ClassGuidedUNet \<Rightarrow> nat list" where
  "guided_params g = rev (remdups (rev (classifier_params g @ unet_params g @ layer_params (fc g))))"

section \<open>Freezing\<close>

lemma freeze_param_heap:
  "heap (freeze_param p s) a =
     (if a = p then map_option (\<lambda>r. r\<lparr>requires_grad := False\<rparr>) (heap s a) else heap s a)"
  by (simp add: freeze_param_def)

lemma freeze_param_lim [simp]: "lim (freeze_param p s) = lim s"
  by (simp add: freeze_param_def)

lemma freeze_all_run:
  "run_state (freeze_all ps) s = ((), fold freeze_param ps s)"
  by (induction ps arbitrary: s) (simp_all add: State_Monad.update_def)

lemma grad_on_freeze_param:
  "grad_on (freeze_param p s) a \<longleftrightarrow> a \<noteq> p \<and> grad_on s a"
  by (auto simp add: grad_on_def freeze_param_heap split: option.split)

lemma grad_on_fold_freeze:
  "grad_on (fold freeze_param ps s) a \<longleftrightarrow> a \<notin> set ps \<and> grad_on s a"
  by (induction ps arbitrary: s) (auto simp add: grad_on_freeze_param)

lemma lim_fold_freeze [simp]: "lim (fold freeze_param ps s) = lim s"
  by (induction ps arbitrary: s) simp_all

lemma ClassGuidedUNet_init_run:
  "run_state (ClassGuidedUNet_init cf cps uf ups fch) s =
     (\<lparr>classifier = cf, classifier_params = cps, unet = uf, unet_params = ups,
       fc = Linear 10 (fch * 12 * 12) (lim s) (Some (Suc (lim s)))\<rparr>,
      fold freeze_param cps (snd (run_state (Linear_new 10 (fch * 12 * 12)) s)))"
  by (simp add: ClassGuidedUNet_init_def Linear_new_def alloc_def freeze_all_run)

lemma grad_on_alloc_linear:
  "grad_on (snd (run_state (Linear_new i o') s)) a \<longleftrightarrow>
     a = lim s \<or> a = Suc (lim s) \<or> grad_on s a"
  by (auto simp add: Linear_new_def alloc_def grad_on_def)

lemma view_shape_projection:
  "view_shape (f * 144 div 144) 12 12 [n, f * 144] =
     (if f = 0 then Inl ViewError else Inr [n, f, 12, 12])"
  by (simp add: view_shape_def)

lemma ClassGuidedUNet_init_fst:
  "fst (run_state (ClassGuidedUNet_init cf cps uf ups fch) s) =
     \<lparr>classifier = cf, classifier_params = cps, unet = uf, unet_params = ups,
      fc = Linear 10 (fch * 12 * 12) (lim s) (Some (Suc (lim s)))\<rparr>"
  by (simp add: ClassGuidedUNet_init_run)

section \<open>Properties\<close>

text \<open>
  C10. After \<open>__init__\<close>, a parameter tracks gradients exactly when it is not a
  parameter of the classifier and it either is one of the two fresh parameters of the
  projection or tracked gradients before: the classifier is frozen, the projection is
  trainable unless the classifier claims its addresses, and every other parameter (those
  of the U-Net included) keeps its flag, unless the U-Net shares it with the classifier.
\<close>

theorem ClassGuidedUNet_init_requires_grad:
  "grad_on (snd (run_state (ClassGuidedUNet_init cf cps uf ups fch) s)) a \<longleftrightarrow>
   a \<notin> set cps \<and> (a = lim s \<or> a = Suc (lim s) \<or> grad_on s a)"
  by (simp add: ClassGuidedUNet_init_run grad_on_fold_freeze grad_on_alloc_linear)

text \<open>
  C11. Given a classifier output of shape \<open>[N, K]\<close>, \<open>forward\<close> fails with a feature
  mismatch unless \<open>K = 10\<close>, fails in \<open>view\<close> when \<open>feature_channels = 0\<close>, and
  otherwise calls the U-Net on the original image and a conditioning tensor of shape
  \<open>[N, feature_channels, 12, 12]\<close>, whatever the image's size: the 12 is fixed.
\<close>

theorem ClassGuidedUNet_conditioning_shape:
  assumes "cf x = Inr [n, k]"
  shows "ClassGuidedUNet_forward (shape_backend tr) (fst (run_state (ClassGuidedUNet_init cf cps uf ups fch) s)) x =
     (if k \<noteq> 10 then Inl (FeatureMismatch 10 k)
      else if fch = 0 then Inl ViewError
      else uf x [n, fch, 12, 12])"
  using assms view_shape_projection [of fch n]
  by (simp add: ClassGuidedUNet_init_fst ClassGuidedUNet_forward_def linear_shape_def mult.assoc)

theorem ClassGuidedUNet_conditioning_shape_witness:
  "(\<lambda>x::shape. Inr [hd x, 10]) [5, 3, 64, 64] = Inr [5, 10] \<and>
   ClassGuidedUNet_forward (shape_backend False)
     (fst (run_state (ClassGuidedUNet_init (\<lambda>x. Inr [hd x, 10]) [] (\<lambda>x c. Inr c) [] 8) empty_store))
     [5, 3, 64, 64] = Inr [5, 8, 12, 12]"
  using ClassGuidedUNet_conditioning_shape [where cf = "\<lambda>x. Inr [hd x, 10]" and x = "[5, 3, 64, 64]"
      and n = 5 and k = 10 and tr = False and cps = "[]" and uf = "\<lambda>x c. Inr c" and ups = "[]"
      and fch = 8 and s = empty_store]
  by simp

end
