(* ===== verification/Spec2Isabelle.thy ===== *)
theory Spec2Isabelle
  imports ClassifyingResNet ClassGuidedUNet
begin

text \<open>
  \<^bold>\<open>A verification development of the image-denoising models.\<close>

  The repository's models (\<^verbatim>\<open>src/src/models/\<close>) are PyTorch modules. Two are
  modelled here:
  \<^item> \<^verbatim>\<open>classifying_resnet.py\<close>: the residual unit \<open>BasicBlock\<close> (two
    convolution branches, an identity or 1\<open>\<times>\<close>1-convolution shortcut, ReLU after
    the sum) and \<open>ClassifyingResNet\<close> (a stem, four stages of blocks built by
    \<open>_make_layer\<close>, global average pooling and a linear head to the class logits);
  \<^item> \<^verbatim>\<open>class_guided_unet.py\<close>: \<open>ClassGuidedUNet\<close>, which freezes a given
    classifier, projects its 10 logits to a \<open>feature_channels \<times> 12 \<times> 12\<close>
    conditioning map and passes it to a given U-Net together with the image.
  The two meet in the class-guided denoiser whose classifier is a \<open>ClassifyingResNet\<close>;
  this theory holds the properties of that composition.

  \<^bold>\<open>Theories.\<close>
  \<^item> \<open>Prelude\<close>: errors as values (\<open>error + 'a\<close>, with \<open>rbind\<close> stopping at the first
    exception), Python's list indexing \<open>py_index\<close> with negative indices and
    \<open>IndexError\<close>, shapes as \<open>nat list\<close>, and the window arithmetic \<open>out_len\<close>
    and \<open>down\<close> of convolution and pooling.
  \<^item> \<open>Torch\<close>: the part of PyTorch the code calls, written from PyTorch's documented
    behaviour as the environment of the models (not code of the repository): a
    parameter store (addresses holding a shape and \<open>requires_grad\<close>) threaded through
    \<open>HOL-Library.State_Monad\<close>, the modules as the datatype \<open>layer\<close> with their
    constructors, their shape semantics with PyTorch's run-time errors, and a
    \<open>backend\<close> record over which every forward pass is written;
    \<open>shape_backend tr\<close> computes shapes in training (\<open>tr\<close>) or evaluation mode.
  \<^item> \<open>BasicBlock\<close>: \<open>BasicBlock_init\<close> is \<open>BasicBlock.__init__\<close> (every module
    it creates is allocated in the order of the source, the batch norm appended to
    \<open>conv_block2\<close> after \<open>nn.Sequential\<close> copied the list included),
    \<open>BasicBlock_forward\<close> is \<open>BasicBlock.forward\<close>.
  \<^item> \<open>ClassifyingResNet\<close>: \<open>ClassifyingResNet_init\<close> is \<open>__init__\<close> (the list
    lookups, which raise before anything is kept, then \<open>ClassifyingResNet_build\<close>, the
    allocation of every module in order), \<open>make_layer\<close> and its loop
    \<open>repeat_blocks\<close> are \<open>_make_layer\<close>, \<open>ClassifyingResNet_forward\<close> is
    \<open>forward\<close>, \<open>resnet_params\<close> is \<open>parameters()\<close>.
  \<^item> \<open>ClassGuidedUNet\<close>: \<open>ClassGuidedUNet_init\<close> and \<open>ClassGuidedUNet_forward\<close>
    are \<open>__init__\<close> and \<open>forward\<close>; the classifier and the U-Net are arguments,
    seen through their interface (a forward function and a parameter list).

  \<^bold>\<open>What is proved.\<close> For the block (C1--C4): the output shape on every
  well-formed input and the one error it can raise there; when the shortcut is the
  identity; that the second branch never holds the batch norm the source appends; that an
  even kernel makes the residual sum fail. For the ResNet (C5--C9): the exact result of
  \<open>forward\<close> for every accepted configuration and non-empty input, in both modes and
  for every batch size (logits \<open>[N, num_classes]\<close>, except that in training mode with
  batch norm a single value per channel after the last stage raises, which the
  specification's "every N \<open>\<ge>\<close> 1" overlooks); the default configuration on STL-10
  batches; exactly when construction fails; that extra stage widths are accepted and then
  break every forward pass; that every block of a stage takes the stage's stride. The
  shape lemmas of the stages are stated exactly, with the failure condition of training
  mode, and chained by \<open>rbind_if_error\<close>: the condition can only grow from stage to
  stage, since spatial sizes never grow (\<open>single_value_downs\<close>). Every parameter of a
  constructed network is a fresh address of the store
  (\<open>ClassifyingResNet_init_allocates\<close>, from \<open>allocates\<close> and its composition
  rule \<open>allocates_bind\<close>). For the guided model (C10, C11): which parameters track
  gradients after construction and the shape of the conditioning map. Here (C12, C13): a
  ResNet classifier is entirely frozen while the projection stays trainable, and the
  default ResNet feeds the U-Net a \<open>[N, 32, 12, 12]\<close> map for STL-10 inputs.

  \<^bold>\<open>Choices.\<close> Sizes are \<open>nat\<close>: PyTorch rejects negative sizes before any code
  modelled here runs, and no arithmetic of the models can overflow. Zero sizes are
  modelled where PyTorch rejects them on the code's paths: a convolution with no output
  channel (\<open>WeightTooSmall\<close>), max or adaptive pooling of a map with no channel or no
  pixel (\<open>EmptyInput\<close>), a view to zero channels (\<open>ViewError\<close>); the theorems that
  promise a result assume positive widths. \<open>num_blocks\<close>
  entries are \<open>int\<close>, since \<open>range(1, n)\<close> is empty for every \<open>n \<le> 1\<close>. There
  is no loop whose termination depends on data: \<open>repeat_blocks\<close> is structural on the
  block count, so no fuel is needed.

  \<^bold>\<open>Not modelled.\<close> Tensor values (a backend computing numbers can be given to the
  same forward definitions; only the shape backend is instantiated), autograd and
  \<open>torch.no_grad()\<close>, which change no shape and no \<open>requires_grad\<close> flag,
  unbatched 3-dimensional inputs, and the U-Net, which is not part of the sources and is
  left abstract.
\<close>

section \<open>The class-guided denoiser with a ResNet classifier\<close>

text \<open>
  C12. When the classifier of \<open>ClassGuidedUNet\<close> is a \<open>ClassifyingResNet\<close>
  constructed in the same store, after \<open>ClassGuidedUNet.__init__\<close> no parameter of
  the ResNet tracks gradients, and both parameters of the projection do: the ResNet's
  parameters are addresses allocated before the projection's, so freezing them never
  touches the projection.
\<close>

theorem resnet_guided_freezing:
  assumes init: "ClassifyingResNet_init cin ncls bcs nbs sts bn s = Inr (net, s1)"
    and run: "run_state (ClassGuidedUNet_init (ClassifyingResNet_forward be net) (resnet_params net)
                uf ups fch) s1 = (g, s2)"
  shows "list_all (\<lambda>a. \<not> grad_on s2 a) (resnet_params net) \<and>
         list_all (grad_on s2) (layer_params (ClassGuidedUNet.fc g))"
proof -
  have fresh: "a \<in> set (resnet_params net) \<Longrightarrow> a < lim s1" for a
    using ClassifyingResNet_init_allocates(2) [OF init] by blast
  have s2: "s2 = snd (run_state (ClassGuidedUNet_init (ClassifyingResNet_forward be net)
      (resnet_params net) uf ups fch) s1)" and g: "g = fst (run_state (ClassGuidedUNet_init
      (ClassifyingResNet_forward be net) (resnet_params net) uf ups fch) s1)"
    using run by simp_all
  show ?thesis
    using fresh [of "lim s1"] fresh [of "Suc (lim s1)"]
    by (auto simp add: s2 g ClassGuidedUNet_init_requires_grad ClassGuidedUNet_init_fst list_all_iff)
qed

theorem resnet_guided_freezing_witness:
  "\<exists>net s1 g s2. ClassifyingResNet_init 3 10 [16, 32, 64, 128] [2, 2, 2, 2] [2, 1, 1, 1] True empty_store =
     Inr (net, s1) \<and>
   run_state (ClassGuidedUNet_init (ClassifyingResNet_forward (shape_backend False) net) (resnet_params net)
     (\<lambda>x c. Inr x) [] FEATURE_CHANNELS) s1 = (g, s2) \<and>
   list_all (\<lambda>a. \<not> grad_on s2 a) (resnet_params net) \<and>
   list_all (grad_on s2) (layer_params (ClassGuidedUNet.fc g))"
proof -
  obtain net s1 where init: "ClassifyingResNet_init 3 10 [16, 32, 64, 128] [2, 2, 2, 2] [2, 1, 1, 1] True
      empty_store = Inr (net, s1)"
    by (simp add: ClassifyingResNet_init_eq) (metis prod.exhaust)
  obtain g s2 where run: "run_state (ClassGuidedUNet_init (ClassifyingResNet_forward (shape_backend False) net)
      (resnet_params net) (\<lambda>x c. Inr x) [] FEATURE_CHANNELS) s1 = (g, s2)"
    by (metis prod.exhaust)
  show ?thesis using init run resnet_guided_freezing [OF init run] by blast
qed

text \<open>
  C13. With the default \<open>ClassifyingResNet\<close> as classifier and the default
  \<open>FEATURE_CHANNELS\<close>, the guided model hands the U-Net the STL-10 batch
  \<open>[N, 3, 96, 96]\<close> unchanged together with a conditioning map of shape
  \<open>[N, 32, 12, 12]\<close>, for every batch size and in both modes.
\<close>

theorem resnet_guided_default_forward:
  "\<exists>net s1. ClassifyingResNet_init 3 10 [16, 32, 64, 128] [2, 2, 2, 2] [2, 1, 1, 1] True s =
     Inr (net, s1) \<and>
   (\<forall>n tr. ClassGuidedUNet_forward (shape_backend tr)
      (fst (run_state (ClassGuidedUNet_init (ClassifyingResNet_forward (shape_backend tr) net)
         (resnet_params net) uf ups FEATURE_CHANNELS) s1))
      [n, 3, 96, 96] = uf [n, 3, 96, 96] [n, 32, 12, 12])"
proof -
  define net where "net = fst (run_state (ClassifyingResNet_build 3 10 True (16, 2, 2) (32, 2, 1)
    (64, 2, 1) (128, 2, 1) 128) s)"
  have init: "ClassifyingResNet_init 3 10 [16, 32, 64, 128] [2, 2, 2, 2] [2, 1, 1, 1] True s =
      Inr (net, snd (run_state (ClassifyingResNet_build 3 10 True (16, 2, 2) (32, 2, 1)
        (64, 2, 1) (128, 2, 1) 128) s))"
    by (simp add: ClassifyingResNet_init_eq net_def)
  have "ClassGuidedUNet_forward (shape_backend tr)
      (fst (run_state (ClassGuidedUNet_init (ClassifyingResNet_forward (shape_backend tr) net)
         (resnet_params net) uf ups FEATURE_CHANNELS) s1'))
      [n, 3, 96, 96] = uf [n, 3, 96, 96] [n, 32, 12, 12]" for n tr s1'
    using default_build_forward [of tr s n] view_shape_projection [of 32 n]
    by (simp add: net_def ClassGuidedUNet_init_fst ClassGuidedUNet_forward_def linear_shape_def
        FEATURE_CHANNELS_def)
  with init show ?thesis by blast
qed

end
